theory Spec2Isabelle
  imports Complex_Main "HOL-Library.Monad_Syntax"
begin

section \<open>Data model\<close>

text \<open>
  The calculation engine of \<^verbatim>\<open>pkg/services\<close> works on \<^verbatim>\<open>models.Stock\<close> values.
  It is read twice here. In the first reading every \<^verbatim>\<open>float64\<close> is a \<^typ>\<open>real\<close>: exact
  arithmetic, in which nothing overflows and no value is NaN. The claims about the formulas
  themselves (C2, C3, C4, C6, C8, C9) and the fields that a call leaves stale (C1) are settled
  there. In the second reading, after the first, a \<^verbatim>\<open>float64\<close> is a finite number, an
  infinity or NaN, and a finite result outside the range of \<^verbatim>\<open>float64\<close> becomes an
  infinity. The claims that speak of every input and depend on overflow (C5, C7, C10) are
  settled there.
\<close>

text \<open>
  Modelled from the spec: the struct declaration \<^verbatim>\<open>models.Stock\<close> of package
  \<^verbatim>\<open>pkg/models\<close>, which is not among the files of the engine. The record has the fields that
  the calculation code and its tests read and write, the raw inputs before the derived fields;
  \<^verbatim>\<open>SharesOwned\<close> is an integer (the code converts it with \<^verbatim>\<open>float64(...)\<close>).
\<close>

record Stock =
  Ticker :: string
  Sector :: string
  Currency :: string
  CurrentPrice :: real
  FairValue :: real
  Beta :: real
  ProbabilityPositive :: real
  DownsideRisk :: real
  SharesOwned :: int
  AvgPriceLocal :: real
  Volatility :: real
  UpsidePotential :: real
  BRatio :: real
  ExpectedValue :: real
  KellyFraction :: real
  HalfKellySuggested :: real
  Assessment :: string
  BuyZoneMin :: real
  BuyZoneMax :: real
  SellZoneLowerBound :: real
  SellZoneUpperBound :: real
  SellZoneStatus :: string

definition defaultProbabilityPositive :: real where
  "defaultProbabilityPositive = 65 / 100"

definition riskFreeRatePercent :: real where
  "riskFreeRatePercent = 4"

definition minDownsideMagnitude :: real where
  "minDownsideMagnitude = 1 / 10"

section \<open>The zone-threshold solver and the forward formula\<close>

definition expectedValueAtPrice :: "real \<Rightarrow> real \<Rightarrow> real \<Rightarrow> real \<Rightarrow> real" where
  "expectedValueAtPrice fairValue probabilityPositive downsideRisk currentPrice =
    (if currentPrice \<le> 0 then 0
     else let upsidePercent = ((fairValue - currentPrice) / currentPrice) * 100
          in (probabilityPositive * upsidePercent) + ((1 - probabilityPositive) * downsideRisk))"

text \<open>
  \<^verbatim>\<open>solvePriceForEVThreshold\<close> returns a price and an \<^verbatim>\<open>ok\<close> flag. In exact arithmetic
  the tests \<^verbatim>\<open>math.IsNaN\<close> and \<^verbatim>\<open>math.IsInf\<close> of the source are never true, which leaves
  \<^verbatim>\<open>price <= 0\<close> of the second guard; the \<^verbatim>\<open>float64\<close> reading further down has all three.
\<close>

definition solvePriceForEVThreshold :: "real \<Rightarrow> real \<Rightarrow> real \<Rightarrow> real \<Rightarrow> real \<times> bool" where
  "solvePriceForEVThreshold fairValue probabilityPositive downsideRisk evThreshold =
    (let downsideMagnitude = \<bar>downsideRisk\<bar>;
         denominator = evThreshold + (100 * probabilityPositive)
                        + ((1 - probabilityPositive) * downsideMagnitude)
     in if denominator \<le> 0 then (0, False)
        else let price = (100 * probabilityPositive * fairValue) / denominator
             in if price \<le> 0 then (0, False) else (price, True))"

section \<open>Position metrics\<close>

definition calibrateDownsideRisk :: "real \<Rightarrow> real" where
  "calibrateDownsideRisk beta =
    (if beta < 1 / 2 then - 15
     else if beta < 1 then - 20
     else if beta < 3 / 2 then - 25
     else - 30)"

text \<open>
  \<^verbatim>\<open>CalculateMetrics\<close> updates the stock in place, one numbered step after the other.
  Each step is a function on the record; a step whose guard fails returns the record
  as it got it.
\<close>

definition calibrateStep :: "Stock \<Rightarrow> Stock" where
  "calibrateStep stock =
    (if DownsideRisk stock = 0 then
       (if Beta stock > 0 then stock\<lparr>DownsideRisk := calibrateDownsideRisk (Beta stock)\<rparr>
        else stock\<lparr>DownsideRisk := - 20\<rparr>)
     else stock)"

definition upsideStep :: "Stock \<Rightarrow> Stock" where
  "upsideStep stock =
    (if CurrentPrice stock > 0 \<and> FairValue stock > 0 then
       stock\<lparr>UpsidePotential :=
         ((FairValue stock - CurrentPrice stock) / CurrentPrice stock) * 100\<rparr>
     else stock)"

definition probabilityStep :: "Stock \<Rightarrow> Stock" where
  "probabilityStep stock =
    (if ProbabilityPositive stock \<le> 0 \<or> ProbabilityPositive stock > 1 then
       stock\<lparr>ProbabilityPositive := defaultProbabilityPositive\<rparr>
     else stock)"

definition bRatioStep :: "Stock \<Rightarrow> Stock" where
  "bRatioStep stock =
    (let downsideMagnitude = \<bar>DownsideRisk stock\<bar>;
         downsideMagnitude = (if downsideMagnitude < minDownsideMagnitude
                              then minDownsideMagnitude else downsideMagnitude)
     in stock\<lparr>BRatio := UpsidePotential stock / downsideMagnitude\<rparr>)"

definition expectedValueStep :: "Stock \<Rightarrow> Stock" where
  "expectedValueStep stock =
    stock\<lparr>ExpectedValue := (ProbabilityPositive stock * UpsidePotential stock)
                            + ((1 - ProbabilityPositive stock) * DownsideRisk stock)\<rparr>"

definition kellyStep :: "Stock \<Rightarrow> Stock" where
  "kellyStep stock =
    (if BRatio stock > 0 then
       (let kelly = ((BRatio stock * ProbabilityPositive stock)
                      - (1 - ProbabilityPositive stock)) / BRatio stock * 100
        in if kelly < 0 then stock\<lparr>KellyFraction := 0\<rparr>
           else stock\<lparr>KellyFraction := kelly\<rparr>)
     else stock\<lparr>KellyFraction := 0\<rparr>)"

definition halfKellyStep :: "Stock \<Rightarrow> Stock" where
  "halfKellyStep stock =
    (let half = KellyFraction stock / 2
     in if half > 15 then stock\<lparr>HalfKellySuggested := 15\<rparr>
        else stock\<lparr>HalfKellySuggested := half\<rparr>)"

definition assessmentStep :: "Stock \<Rightarrow> Stock" where
  "assessmentStep stock =
    (if ExpectedValue stock > 7 then stock\<lparr>Assessment := ''Add''\<rparr>
     else if ExpectedValue stock \<ge> 3 \<and> ExpectedValue stock \<le> 7
       then stock\<lparr>Assessment := ''Hold''\<rparr>
     else if ExpectedValue stock \<ge> 0 \<and> ExpectedValue stock < 3
       then stock\<lparr>Assessment := ''Trim''\<rparr>
     else stock\<lparr>Assessment := ''Sell''\<rparr>)"

text \<open>The local variable \<^verbatim>\<open>requiredUpside\<close> of step 9, with \<^verbatim>\<open>targetEV = 7.0\<close>.\<close>

definition requiredUpside :: "real \<Rightarrow> real \<Rightarrow> real" where
  "requiredUpside probabilityPositive downsideRisk =
    (7 - (1 - probabilityPositive) * downsideRisk) / probabilityPositive"

definition buyZoneStep :: "Stock \<Rightarrow> Stock" where
  "buyZoneStep stock =
    (if FairValue stock > 0 \<and> ProbabilityPositive stock > 0 then
       (let required = requiredUpside (ProbabilityPositive stock) (DownsideRisk stock)
        in if required > - 100 then
             (let buyMax = FairValue stock / (1 + required / 100)
              in stock\<lparr>BuyZoneMax := buyMax, BuyZoneMin := buyMax * (90 / 100)\<rparr>)
           else stock\<lparr>BuyZoneMin := CurrentPrice stock * (85 / 100),
                       BuyZoneMax := CurrentPrice stock * (95 / 100)\<rparr>)
     else stock)"

definition sellZoneStep :: "Stock \<Rightarrow> Stock" where
  "sellZoneStep stock =
    (let (sellLowerBound, okTrim) =
           solvePriceForEVThreshold (FairValue stock) (ProbabilityPositive stock)
             (DownsideRisk stock) 3;
         (sellUpperBound, okSell) =
           solvePriceForEVThreshold (FairValue stock) (ProbabilityPositive stock)
             (DownsideRisk stock) 0
     in if okTrim \<and> okSell \<and> sellLowerBound < sellUpperBound then
          stock\<lparr>SellZoneLowerBound := sellLowerBound,
                SellZoneUpperBound := sellUpperBound,
                SellZoneStatus :=
                  (if ExpectedValue stock > 3 then ''Below sell zone''
                   else if ExpectedValue stock > 0 then ''In trim zone''
                   else ''In sell zone'')\<rparr>
        else stock\<lparr>SellZoneLowerBound := 0, SellZoneUpperBound := 0,
                    SellZoneStatus := ''no sell zone''\<rparr>)"

definition CalculateMetrics :: "Stock \<Rightarrow> Stock" where
  "CalculateMetrics stock =
    sellZoneStep (buyZoneStep (assessmentStep (halfKellyStep (kellyStep
      (expectedValueStep (bRatioStep (probabilityStep (upsideStep
        (calibrateStep stock)))))))))"

section \<open>Standalone zone queries\<close>

text \<open>
  The result structs repeat field names of \<^verbatim>\<open>models.Stock\<close>, so their fields carry the
  prefix \<open>bz\<close> or \<open>sz\<close> here. Both entry points return the result together with an error,
  \<^verbatim>\<open>nil\<close> being \<^term>\<open>None\<close>; the result starts from the four arguments with every other field
  at its zero value.
\<close>

record BuyZone =
  bzLowerBound :: real
  bzUpperBound :: real

record BuyZoneCalculationResult =
  bzTicker :: string
  bzFairValue :: real
  bzProbabilityPositive :: real
  bzDownsideRisk :: real
  bzBuyZone :: BuyZone
  bzCurrentExpectedValue :: real
  bzZoneStatus :: string

record SellZone =
  szLowerBound :: real
  szUpperBound :: real

record SellZoneCalculationResult =
  szTicker :: string
  szFairValue :: real
  szProbabilityPositive :: real
  szDownsideRisk :: real
  szSellZone :: SellZone
  szCurrentExpectedValue :: real
  szSellZoneStatus :: string

definition CalculateBuyZoneResult ::
  "string \<Rightarrow> real \<Rightarrow> real \<Rightarrow> real \<Rightarrow> real \<Rightarrow> BuyZoneCalculationResult \<times> string option" where
  "CalculateBuyZoneResult ticker fairValue probabilityPositive downsideRisk currentPrice =
    (let result = \<lparr>bzTicker = ticker, bzFairValue = fairValue,
                     bzProbabilityPositive = probabilityPositive,
                     bzDownsideRisk = downsideRisk,
                     bzBuyZone = \<lparr>bzLowerBound = 0, bzUpperBound = 0\<rparr>,
                     bzCurrentExpectedValue = 0, bzZoneStatus = []\<rparr>
     in if probabilityPositive < 0 \<or> probabilityPositive > 1 then
          (result, Some ''probability_positive must be between 0 and 1'')
        else if downsideRisk \<ge> 0 then
          (result, Some ''downside_risk must be negative'')
        else if fairValue \<le> 0 then
          (result, Some ''fair_value must be positive'')
        else
          (let (lowerBound, okLower) =
                 solvePriceForEVThreshold fairValue probabilityPositive downsideRisk 15;
               (upperBound, okUpper) =
                 solvePriceForEVThreshold fairValue probabilityPositive downsideRisk 7
           in if \<not> okLower \<or> \<not> okUpper then
                (result\<lparr>bzZoneStatus := ''no buy zone available''\<rparr>, None)
              else
                (let result = result\<lparr>bzBuyZone :=
                       \<lparr>bzLowerBound = lowerBound, bzUpperBound = upperBound\<rparr>\<rparr>
                 in if lowerBound > upperBound then
                      (result\<lparr>bzZoneStatus := ''no buy zone available''\<rparr>, None)
                    else if currentPrice > 0 then
                      (result\<lparr>bzCurrentExpectedValue :=
                          expectedValueAtPrice fairValue probabilityPositive downsideRisk
                            currentPrice,
                        bzZoneStatus :=
                          (if currentPrice < lowerBound then ''EV >> 15%''
                           else if currentPrice \<le> upperBound then ''within buy zone''
                           else ''outside buy zone'')\<rparr>, None)
                    else (result, None))))"

definition CalculateSellZoneResult ::
  "string \<Rightarrow> real \<Rightarrow> real \<Rightarrow> real \<Rightarrow> real \<Rightarrow> SellZoneCalculationResult \<times> string option" where
  "CalculateSellZoneResult ticker fairValue probabilityPositive downsideRisk currentPrice =
    (let result = \<lparr>szTicker = ticker, szFairValue = fairValue,
                     szProbabilityPositive = probabilityPositive,
                     szDownsideRisk = downsideRisk,
                     szSellZone = \<lparr>szLowerBound = 0, szUpperBound = 0\<rparr>,
                     szCurrentExpectedValue = 0, szSellZoneStatus = []\<rparr>
     in if probabilityPositive < 0 \<or> probabilityPositive > 1 then
          (result, Some ''probability_positive must be between 0 and 1'')
        else if downsideRisk \<ge> 0 then
          (result, Some ''downside_risk must be negative'')
        else if fairValue \<le> 0 then
          (result, Some ''fair_value must be positive'')
        else
          (let (trimPrice, okTrim) =
                 solvePriceForEVThreshold fairValue probabilityPositive downsideRisk 3;
               (sellPrice, okSell) =
                 solvePriceForEVThreshold fairValue probabilityPositive downsideRisk 0
           in if \<not> okTrim \<or> \<not> okSell \<or> trimPrice \<ge> sellPrice then
                (result\<lparr>szSellZoneStatus := ''no sell zone''\<rparr>, None)
              else
                (let result = result\<lparr>szSellZone :=
                       \<lparr>szLowerBound = trimPrice, szUpperBound = sellPrice\<rparr>\<rparr>
                 in if currentPrice > 0 then
                      (let currentEV = expectedValueAtPrice fairValue probabilityPositive
                                         downsideRisk currentPrice
                       in (result\<lparr>szCurrentExpectedValue := currentEV,
                             szSellZoneStatus :=
                               (if currentEV > 3 then ''Below sell zone''
                                else if currentEV > 0 then ''In trim zone''
                                else ''In sell zone'')\<rparr>, None))
                    else (result, None))))"

section \<open>Portfolio aggregation\<close>

text \<open>
  The rate table is a Go map from currency code to rate; reading a key that is not in the
  map gives the zero value. The sector weights are a map built by \<^verbatim>\<open>+=\<close> on its entries,
  kept here as an association list with one entry per sector, in order of first occurrence.
\<close>

type_synonym rates = "string \<rightharpoonup> real"

definition rateOf :: "rates \<Rightarrow> string \<Rightarrow> real" where
  "rateOf fxRates currency = (case fxRates currency of None \<Rightarrow> 0 | Some rate \<Rightarrow> rate)"

fun addWeight :: "string \<Rightarrow> real \<Rightarrow> (string \<times> real) list \<Rightarrow> (string \<times> real) list" where
  "addWeight sector w [] = [(sector, w)]"
| "addWeight sector w ((k, v) # rest) =
    (if k = sector then (k, v + w) # rest else (k, v) # addWeight sector w rest)"

record PortfolioMetrics =
  TotalValue :: real
  OverallEV :: real
  WeightedVolatility :: real
  SharpeRatio :: real
  KellyUtilization :: real
  SectorWeights :: "(string \<times> real) list"

text \<open>
  First pass. The slice \<^verbatim>\<open>stockValues\<close> has one slot per stock, zero unless the loop
  body reaches the assignment; the result is that slice together with \<^verbatim>\<open>totalValue\<close>.
\<close>

fun firstPass :: "rates \<Rightarrow> Stock list \<Rightarrow> real \<Rightarrow> real list \<times> real" where
  "firstPass fxRates [] totalValue = ([], totalValue)"
| "firstPass fxRates (stock # rest) totalValue =
    (if SharesOwned stock \<le> 0 then
       (case firstPass fxRates rest totalValue of (vals, totalAfter) \<Rightarrow> (0 # vals, totalAfter))
     else
       (let fxRate = rateOf fxRates (Currency stock)
        in if fxRate \<le> 0 then
             (case firstPass fxRates rest totalValue of
                (vals, totalAfter) \<Rightarrow> (0 # vals, totalAfter))
           else
             (let valueEUR = real_of_int (SharesOwned stock) * CurrentPrice stock / fxRate
              in case firstPass fxRates rest (totalValue + valueEUR) of
                   (vals, totalAfter) \<Rightarrow> (valueEUR # vals, totalAfter))))"

text \<open>The running sums of the second pass.\<close>

record Aggregates =
  weightedEV :: real
  weightedVolatility :: real
  sectorWeights :: "(string \<times> real) list"
  kellyUtilization :: real

fun secondPass :: "real \<Rightarrow> (Stock \<times> real) list \<Rightarrow> Aggregates \<Rightarrow> Aggregates" where
  "secondPass totalValue [] acc = acc"
| "secondPass totalValue ((stock, stockValue) # rest) acc =
    (if SharesOwned stock \<le> 0 then secondPass totalValue rest acc
     else if totalValue > 0 \<and> stockValue > 0 then
       (let weight = stockValue / totalValue
        in secondPass totalValue rest
             (acc\<lparr>weightedEV := weightedEV acc + ExpectedValue stock * weight,
                  weightedVolatility := weightedVolatility acc + Volatility stock * weight,
                  sectorWeights := addWeight (Sector stock) (weight * 100) (sectorWeights acc),
                  kellyUtilization := kellyUtilization acc + weight * 100\<rparr>))
     else secondPass totalValue rest acc)"

definition summarise :: "real \<Rightarrow> Aggregates \<Rightarrow> PortfolioMetrics" where
  "summarise totalValue acc =
    (let sharpeRatio = (if weightedVolatility acc > 0
                        then (weightedEV acc - riskFreeRatePercent) / weightedVolatility acc
                        else 0)
     in \<lparr>TotalValue = totalValue, OverallEV = weightedEV acc,
         WeightedVolatility = weightedVolatility acc, SharpeRatio = sharpeRatio,
         KellyUtilization = kellyUtilization acc, SectorWeights = sectorWeights acc\<rparr>)"

definition noAggregates :: Aggregates where
  "noAggregates = \<lparr>weightedEV = 0, weightedVolatility = 0, sectorWeights = [],
                    kellyUtilization = 0\<rparr>"

definition CalculatePortfolioMetrics :: "Stock list \<Rightarrow> rates \<Rightarrow> PortfolioMetrics" where
  "CalculatePortfolioMetrics stocks fxRates =
    (case firstPass fxRates stocks 0 of
       (stockValues, totalValue) \<Rightarrow>
         summarise totalValue (secondPass totalValue (zip stocks stockValues) noAggregates))"

subsection \<open>The aggregator of \<^verbatim>\<open>internal/services\<close>\<close>

text \<open>
  \<^verbatim>\<open>internal/services/calculations.go\<close> has its own \<^verbatim>\<open>CalculatePortfolioMetrics\<close>. Its first
  pass replaces a zero rate by 1.0 (``Default to EUR base if no rate is available'') and has
  no other test of the rate; its second pass and the Sharpe ratio are those above.
\<close>

fun firstPass_internal :: "rates \<Rightarrow> Stock list \<Rightarrow> real \<Rightarrow> real list \<times> real" where
  "firstPass_internal fxRates [] totalValue = ([], totalValue)"
| "firstPass_internal fxRates (stock # rest) totalValue =
    (if SharesOwned stock \<le> 0 then
       (case firstPass_internal fxRates rest totalValue of
          (vals, totalAfter) \<Rightarrow> (0 # vals, totalAfter))
     else
       (let fxRate = rateOf fxRates (Currency stock);
            fxRate = (if fxRate = 0 then 1 else fxRate);
            valueEUR = real_of_int (SharesOwned stock) * CurrentPrice stock / fxRate
        in case firstPass_internal fxRates rest (totalValue + valueEUR) of
             (vals, totalAfter) \<Rightarrow> (valueEUR # vals, totalAfter)))"

definition CalculatePortfolioMetrics_internal :: "Stock list \<Rightarrow> rates \<Rightarrow> PortfolioMetrics" where
  "CalculatePortfolioMetrics_internal stocks fxRates =
    (case firstPass_internal fxRates stocks 0 of
       (stockValues, totalValue) \<Rightarrow>
         summarise totalValue (secondPass totalValue (zip stocks stockValues) noAggregates))"

section \<open>Records, predicates and sample values of the statements\<close>

text \<open>The zero value \<^verbatim>\<open>models.Stock{}\<close>, and stocks of the test suite built from it.\<close>

definition zeroStock :: Stock where
  "zeroStock = \<lparr>Ticker = [], Sector = [], Currency = [], CurrentPrice = 0, FairValue = 0,
     Beta = 0, ProbabilityPositive = 0, DownsideRisk = 0, SharesOwned = 0, AvgPriceLocal = 0,
     Volatility = 0, UpsidePotential = 0, BRatio = 0, ExpectedValue = 0, KellyFraction = 0,
     HalfKellySuggested = 0, Assessment = [], BuyZoneMin = 0, BuyZoneMax = 0,
     SellZoneLowerBound = 0, SellZoneUpperBound = 0, SellZoneStatus = []\<rparr>"

text \<open>Two stocks with the same raw inputs; two stocks with the same derived fields.\<close>

definition sameInputs :: "Stock \<Rightarrow> Stock \<Rightarrow> bool" where
  "sameInputs a b \<longleftrightarrow>
    Ticker a = Ticker b \<and> Sector a = Sector b \<and> Currency a = Currency b \<and>
    CurrentPrice a = CurrentPrice b \<and> FairValue a = FairValue b \<and> Beta a = Beta b \<and>
    ProbabilityPositive a = ProbabilityPositive b \<and> DownsideRisk a = DownsideRisk b \<and>
    SharesOwned a = SharesOwned b \<and> AvgPriceLocal a = AvgPriceLocal b"

definition sameDerived :: "Stock \<Rightarrow> Stock \<Rightarrow> bool" where
  "sameDerived a b \<longleftrightarrow>
    UpsidePotential a = UpsidePotential b \<and> BRatio a = BRatio b \<and>
    ExpectedValue a = ExpectedValue b \<and> KellyFraction a = KellyFraction b \<and>
    HalfKellySuggested a = HalfKellySuggested b \<and> Assessment a = Assessment b \<and>
    BuyZoneMin a = BuyZoneMin b \<and> BuyZoneMax a = BuyZoneMax b \<and>
    SellZoneLowerBound a = SellZoneLowerBound b \<and>
    SellZoneUpperBound a = SellZoneUpperBound b \<and> SellZoneStatus a = SellZoneStatus b"

text \<open>The stock of \<^verbatim>\<open>TestCalculateMetricsDefaultsAndDerivedValues\<close>.\<close>

definition testStock :: Stock where
  "testStock = zeroStock\<lparr>Beta := 6 / 5, CurrentPrice := 100, FairValue := 120\<rparr>"

text \<open>A stock whose downside risk is given as a positive number.\<close>

definition positiveDownsideStock :: Stock where
  "positiveDownsideStock = zeroStock\<lparr>CurrentPrice := 90, FairValue := 100,
     ProbabilityPositive := 1 / 2, DownsideRisk := 10\<rparr>"

text \<open>A stock that carries an upside potential from an earlier call.\<close>

definition staleStock :: Stock where
  "staleStock = zeroStock\<lparr>UpsidePotential := 50\<rparr>"

text \<open>The three checks that both entry points make on their arguments, in their order.\<close>

definition validationError :: "real \<Rightarrow> real \<Rightarrow> real \<Rightarrow> string option" where
  "validationError fairValue probabilityPositive downsideRisk =
    (if probabilityPositive < 0 \<or> probabilityPositive > 1
       then Some ''probability_positive must be between 0 and 1''
     else if downsideRisk \<ge> 0 then Some ''downside_risk must be negative''
     else if fairValue \<le> 0 then Some ''fair_value must be positive''
     else None)"

text \<open>
  A position counts in the aggregation of \<^verbatim>\<open>pkg/services\<close> when it has shares and its
  currency has a positive rate; its value in the base currency is
  \<open>shares \<times> price / rate\<close>, and its slot of \<^verbatim>\<open>stockValues\<close> holds that value or stays zero.
\<close>

definition included :: "rates \<Rightarrow> Stock \<Rightarrow> bool" where
  "included fxRates stock \<longleftrightarrow> 0 < SharesOwned stock \<and> 0 < rateOf fxRates (Currency stock)"

definition positionValue :: "rates \<Rightarrow> Stock \<Rightarrow> real" where
  "positionValue fxRates stock =
    real_of_int (SharesOwned stock) * CurrentPrice stock / rateOf fxRates (Currency stock)"

definition slotValue :: "rates \<Rightarrow> Stock \<Rightarrow> real" where
  "slotValue fxRates stock =
    (if included fxRates stock then positionValue fxRates stock else 0)"

text \<open>The summary in which every number is zero and the sector map is empty.\<close>

definition noMetrics :: PortfolioMetrics where
  "noMetrics = \<lparr>TotalValue = 0, OverallEV = 0, WeightedVolatility = 0, SharpeRatio = 0,
     KellyUtilization = 0, SectorWeights = []\<rparr>"

text \<open>The portfolio of \<^verbatim>\<open>TestCalculatePortfolioMetrics\<close> and its rate table.\<close>

definition techStock :: Stock where
  "techStock = zeroStock\<lparr>SharesOwned := 10, CurrentPrice := 100, Currency := ''USD'',
     ExpectedValue := 5, Volatility := 10, Sector := ''Tech''\<rparr>"

definition healthStock :: Stock where
  "healthStock = zeroStock\<lparr>SharesOwned := 5, CurrentPrice := 200, Currency := ''EUR'',
     ExpectedValue := 1, Volatility := 20, Sector := ''Health''\<rparr>"

definition ignoredStock :: Stock where
  "ignoredStock = zeroStock\<lparr>SharesOwned := 0, CurrentPrice := 999, Currency := ''USD'',
     Sector := ''Ignored''\<rparr>"

definition testRates :: rates where
  "testRates = [''USD'' \<mapsto> 1, ''EUR'' \<mapsto> 2]"

definition noRates :: rates where
  "noRates = Map.empty"

text \<open>A position in a currency that the rate table does not have, and one with a negative price.\<close>

definition unratedStock :: Stock where
  "unratedStock = zeroStock\<lparr>SharesOwned := 1, CurrentPrice := 10, Currency := ''XXX''\<rparr>"

definition negativePriceStock :: Stock where
  "negativePriceStock = zeroStock\<lparr>SharesOwned := 1, CurrentPrice := - 50, Currency := ''USD'',
     Sector := ''Other''\<rparr>"

section \<open>The calculations with guarded divisions\<close>

text \<open>
  A second reading of the two calculations, in which a division whose divisor is not a
  literal fails unless the divisor is positive. Go's \<^verbatim>\<open>float64\<close> division itself never
  panics; the failure here stands for a division that reaches a zero or negative divisor.
  Apart from the divisions the definitions follow the ones above line by line.
\<close>

definition guardedDiv :: "real \<Rightarrow> real \<Rightarrow> real option" where
  "guardedDiv x y = (if 0 < y then Some (x / y) else None)"

definition upsideStep_checked :: "Stock \<Rightarrow> Stock option" where
  "upsideStep_checked stock =
    (if CurrentPrice stock > 0 \<and> FairValue stock > 0 then
       do { ratio \<leftarrow> guardedDiv (FairValue stock - CurrentPrice stock) (CurrentPrice stock);
            Some (stock\<lparr>UpsidePotential := ratio * 100\<rparr>) }
     else Some stock)"

definition bRatioStep_checked :: "Stock \<Rightarrow> Stock option" where
  "bRatioStep_checked stock =
    (let downsideMagnitude = \<bar>DownsideRisk stock\<bar>;
         downsideMagnitude = (if downsideMagnitude < minDownsideMagnitude
                              then minDownsideMagnitude else downsideMagnitude)
     in do { ratio \<leftarrow> guardedDiv (UpsidePotential stock) downsideMagnitude;
             Some (stock\<lparr>BRatio := ratio\<rparr>) })"

definition kellyStep_checked :: "Stock \<Rightarrow> Stock option" where
  "kellyStep_checked stock =
    (if BRatio stock > 0 then
       do { fraction \<leftarrow> guardedDiv ((BRatio stock * ProbabilityPositive stock)
                                      - (1 - ProbabilityPositive stock)) (BRatio stock);
            let kelly = fraction * 100;
            Some (if kelly < 0 then stock\<lparr>KellyFraction := 0\<rparr>
                  else stock\<lparr>KellyFraction := kelly\<rparr>) }
     else Some (stock\<lparr>KellyFraction := 0\<rparr>))"

definition buyZoneStep_checked :: "Stock \<Rightarrow> Stock option" where
  "buyZoneStep_checked stock =
    (if FairValue stock > 0 \<and> ProbabilityPositive stock > 0 then
       do { required \<leftarrow> guardedDiv (7 - (1 - ProbabilityPositive stock) * DownsideRisk stock)
                          (ProbabilityPositive stock);
            if required > - 100 then
              do { buyMax \<leftarrow> guardedDiv (FairValue stock) (1 + required / 100);
                   Some (stock\<lparr>BuyZoneMax := buyMax, BuyZoneMin := buyMax * (90 / 100)\<rparr>) }
            else Some (stock\<lparr>BuyZoneMin := CurrentPrice stock * (85 / 100),
                             BuyZoneMax := CurrentPrice stock * (95 / 100)\<rparr>) }
     else Some stock)"

definition solvePriceForEVThreshold_checked ::
  "real \<Rightarrow> real \<Rightarrow> real \<Rightarrow> real \<Rightarrow> (real \<times> bool) option" where
  "solvePriceForEVThreshold_checked fairValue probabilityPositive downsideRisk evThreshold =
    (let downsideMagnitude = \<bar>downsideRisk\<bar>;
         denominator = evThreshold + (100 * probabilityPositive)
                        + ((1 - probabilityPositive) * downsideMagnitude)
     in if denominator \<le> 0 then Some (0, False)
        else do { price \<leftarrow> guardedDiv (100 * probabilityPositive * fairValue) denominator;
                  Some (if price \<le> 0 then (0, False) else (price, True)) })"

definition sellZoneStep_checked :: "Stock \<Rightarrow> Stock option" where
  "sellZoneStep_checked stock =
    do { (sellLowerBound, okTrim) \<leftarrow>
           solvePriceForEVThreshold_checked (FairValue stock) (ProbabilityPositive stock)
             (DownsideRisk stock) 3;
         (sellUpperBound, okSell) \<leftarrow>
           solvePriceForEVThreshold_checked (FairValue stock) (ProbabilityPositive stock)
             (DownsideRisk stock) 0;
         Some (if okTrim \<and> okSell \<and> sellLowerBound < sellUpperBound then
                 stock\<lparr>SellZoneLowerBound := sellLowerBound,
                       SellZoneUpperBound := sellUpperBound,
                       SellZoneStatus :=
                         (if ExpectedValue stock > 3 then ''Below sell zone''
                          else if ExpectedValue stock > 0 then ''In trim zone''
                          else ''In sell zone'')\<rparr>
               else stock\<lparr>SellZoneLowerBound := 0, SellZoneUpperBound := 0,
                           SellZoneStatus := ''no sell zone''\<rparr>) }"

definition CalculateMetrics_checked :: "Stock \<Rightarrow> Stock option" where
  "CalculateMetrics_checked stock =
    do { stock \<leftarrow> Some (calibrateStep stock);
         stock \<leftarrow> upsideStep_checked stock;
         stock \<leftarrow> Some (probabilityStep stock);
         stock \<leftarrow> bRatioStep_checked stock;
         stock \<leftarrow> Some (expectedValueStep stock);
         stock \<leftarrow> kellyStep_checked stock;
         stock \<leftarrow> Some (halfKellyStep stock);
         stock \<leftarrow> Some (assessmentStep stock);
         stock \<leftarrow> buyZoneStep_checked stock;
         sellZoneStep_checked stock }"

fun firstPass_checked :: "rates \<Rightarrow> Stock list \<Rightarrow> real \<Rightarrow> (real list \<times> real) option" where
  "firstPass_checked fxRates [] totalValue = Some ([], totalValue)"
| "firstPass_checked fxRates (stock # rest) totalValue =
    (if SharesOwned stock \<le> 0 then
       do { (vals, totalAfter) \<leftarrow> firstPass_checked fxRates rest totalValue;
            Some (0 # vals, totalAfter) }
     else
       (let fxRate = rateOf fxRates (Currency stock)
        in if fxRate \<le> 0 then
             do { (vals, totalAfter) \<leftarrow> firstPass_checked fxRates rest totalValue;
                  Some (0 # vals, totalAfter) }
           else
             do { valueEUR \<leftarrow> guardedDiv (real_of_int (SharesOwned stock) * CurrentPrice stock)
                               fxRate;
                  (vals, totalAfter) \<leftarrow> firstPass_checked fxRates rest (totalValue + valueEUR);
                  Some (valueEUR # vals, totalAfter) }))"

fun secondPass_checked ::
  "real \<Rightarrow> (Stock \<times> real) list \<Rightarrow> Aggregates \<Rightarrow> Aggregates option" where
  "secondPass_checked totalValue [] acc = Some acc"
| "secondPass_checked totalValue ((stock, stockValue) # rest) acc =
    (if SharesOwned stock \<le> 0 then secondPass_checked totalValue rest acc
     else if totalValue > 0 \<and> stockValue > 0 then
       do { weight \<leftarrow> guardedDiv stockValue totalValue;
            secondPass_checked totalValue rest
              (acc\<lparr>weightedEV := weightedEV acc + ExpectedValue stock * weight,
                   weightedVolatility := weightedVolatility acc + Volatility stock * weight,
                   sectorWeights := addWeight (Sector stock) (weight * 100) (sectorWeights acc),
                   kellyUtilization := kellyUtilization acc + weight * 100\<rparr>) }
     else secondPass_checked totalValue rest acc)"

definition summarise_checked :: "real \<Rightarrow> Aggregates \<Rightarrow> PortfolioMetrics option" where
  "summarise_checked totalValue acc =
    do { sharpeRatio \<leftarrow>
           (if weightedVolatility acc > 0
            then guardedDiv (weightedEV acc - riskFreeRatePercent) (weightedVolatility acc)
            else Some 0);
         Some \<lparr>TotalValue = totalValue, OverallEV = weightedEV acc,
               WeightedVolatility = weightedVolatility acc, SharpeRatio = sharpeRatio,
               KellyUtilization = kellyUtilization acc, SectorWeights = sectorWeights acc\<rparr> }"

definition CalculatePortfolioMetrics_checked ::
  "Stock list \<Rightarrow> rates \<Rightarrow> PortfolioMetrics option" where
  "CalculatePortfolioMetrics_checked stocks fxRates =
    do { (stockValues, totalValue) \<leftarrow> firstPass_checked fxRates stocks 0;
         acc \<leftarrow> secondPass_checked totalValue (zip stocks stockValues) noAggregates;
         summarise_checked totalValue acc }"

section \<open>The values of \<^verbatim>\<open>float64\<close>\<close>

text \<open>
  A \<^verbatim>\<open>float64\<close> is a finite number, \<open>+Inf\<close>, \<open>-Inf\<close> or NaN. The result of an operation on
  finite numbers is the exact result, unless its magnitude reaches \<open>2^1024 - 2^970\<close>, from
  where rounding to nearest gives an infinity. So overflow, the infinities and NaN are as
  in IEEE 754, while the rounding of a result inside the range is left out, and so is the
  sign of zero: no division of the engine has a zero divisor, and a division by zero here is
  a division by \<open>+0\<close>.
\<close>

datatype float64 = Fin real | PInf | NInf | NaN

definition overflowLimit :: real where
  "overflowLimit = 2 ^ 1024 - 2 ^ 970"

definition clip :: "real \<Rightarrow> float64" where
  "clip r = (if overflowLimit \<le> r then PInf
             else if r \<le> - overflowLimit then NInf
             else Fin r)"

definition signedInf :: "real \<Rightarrow> float64" where
  "signedInf r = (if 0 < r then PInf else if r < 0 then NInf else NaN)"

text \<open>
  Arithmetic and comparison on these values. NaN makes every result NaN and every
  comparison false; \<open>Inf - Inf\<close>, \<open>0 \<times> Inf\<close>, \<open>Inf / Inf\<close> and \<open>0 / 0\<close> are NaN.
\<close>

instantiation float64 :: "{plus, minus, uminus, times, inverse, abs, ord}"
begin

fun plus_float64 :: "float64 \<Rightarrow> float64 \<Rightarrow> float64" where
  "plus_float64 (Fin a) (Fin b) = clip (a + b)"
| "plus_float64 NaN y = NaN"
| "plus_float64 x NaN = NaN"
| "plus_float64 PInf NInf = NaN"
| "plus_float64 NInf PInf = NaN"
| "plus_float64 PInf y = PInf"
| "plus_float64 x PInf = PInf"
| "plus_float64 NInf y = NInf"
| "plus_float64 x NInf = NInf"

fun uminus_float64 :: "float64 \<Rightarrow> float64" where
  "uminus_float64 (Fin a) = Fin (- a)"
| "uminus_float64 PInf = NInf"
| "uminus_float64 NInf = PInf"
| "uminus_float64 NaN = NaN"

definition minus_float64 :: "float64 \<Rightarrow> float64 \<Rightarrow> float64" where
  "minus_float64 x y = x + (- y)"

fun times_float64 :: "float64 \<Rightarrow> float64 \<Rightarrow> float64" where
  "times_float64 (Fin a) (Fin b) = clip (a * b)"
| "times_float64 NaN y = NaN"
| "times_float64 x NaN = NaN"
| "times_float64 (Fin a) PInf = signedInf a"
| "times_float64 (Fin a) NInf = signedInf (- a)"
| "times_float64 PInf (Fin b) = signedInf b"
| "times_float64 NInf (Fin b) = signedInf (- b)"
| "times_float64 PInf PInf = PInf"
| "times_float64 PInf NInf = NInf"
| "times_float64 NInf PInf = NInf"
| "times_float64 NInf NInf = PInf"

fun divide_float64 :: "float64 \<Rightarrow> float64 \<Rightarrow> float64" where
  "divide_float64 (Fin a) (Fin b) = (if b = 0 then signedInf a else clip (a / b))"
| "divide_float64 NaN y = NaN"
| "divide_float64 x NaN = NaN"
| "divide_float64 (Fin a) PInf = Fin 0"
| "divide_float64 (Fin a) NInf = Fin 0"
| "divide_float64 PInf (Fin b) = (if b < 0 then NInf else PInf)"
| "divide_float64 NInf (Fin b) = (if b < 0 then PInf else NInf)"
| "divide_float64 PInf y = NaN"
| "divide_float64 NInf y = NaN"

definition inverse_float64 :: "float64 \<Rightarrow> float64" where
  "inverse_float64 x = divide (Fin 1) x"

fun abs_float64 :: "float64 \<Rightarrow> float64" where
  "abs_float64 (Fin a) = Fin \<bar>a\<bar>"
| "abs_float64 PInf = PInf"
| "abs_float64 NInf = PInf"
| "abs_float64 NaN = NaN"

fun less_float64 :: "float64 \<Rightarrow> float64 \<Rightarrow> bool" where
  "less_float64 (Fin a) (Fin b) \<longleftrightarrow> a < b"
| "less_float64 NaN y \<longleftrightarrow> False"
| "less_float64 x NaN \<longleftrightarrow> False"
| "less_float64 x NInf \<longleftrightarrow> False"
| "less_float64 PInf y \<longleftrightarrow> False"
| "less_float64 NInf y \<longleftrightarrow> True"
| "less_float64 x PInf \<longleftrightarrow> True"

fun less_eq_float64 :: "float64 \<Rightarrow> float64 \<Rightarrow> bool" where
  "less_eq_float64 (Fin a) (Fin b) \<longleftrightarrow> a \<le> b"
| "less_eq_float64 NaN y \<longleftrightarrow> False"
| "less_eq_float64 x NaN \<longleftrightarrow> False"
| "less_eq_float64 NInf y \<longleftrightarrow> True"
| "less_eq_float64 x PInf \<longleftrightarrow> True"
| "less_eq_float64 x NInf \<longleftrightarrow> False"
| "less_eq_float64 PInf y \<longleftrightarrow> False"

instance ..

end

fun isNaN :: "float64 \<Rightarrow> bool" where
  "isNaN NaN \<longleftrightarrow> True"
| "isNaN x \<longleftrightarrow> False"

fun isInf :: "float64 \<Rightarrow> bool" where
  "isInf PInf \<longleftrightarrow> True"
| "isInf NInf \<longleftrightarrow> True"
| "isInf x \<longleftrightarrow> False"

section \<open>The calculations on \<^verbatim>\<open>float64\<close>\<close>

text \<open>
  The second reading of \<^verbatim>\<open>CalculateMetrics\<close>, \<^verbatim>\<open>solvePriceForEVThreshold\<close> and
  \<^verbatim>\<open>CalculatePortfolioMetrics\<close> of \<^verbatim>\<open>pkg/services\<close>: the same statements in the same
  order, on \<^typ>\<open>float64\<close> values. Names carry the suffix \<open>_f\<close>.
\<close>

record Stock_f =
  Ticker_f :: string
  Sector_f :: string
  Currency_f :: string
  CurrentPrice_f :: float64
  FairValue_f :: float64
  Beta_f :: float64
  ProbabilityPositive_f :: float64
  DownsideRisk_f :: float64
  SharesOwned_f :: int
  AvgPriceLocal_f :: float64
  Volatility_f :: float64
  UpsidePotential_f :: float64
  BRatio_f :: float64
  ExpectedValue_f :: float64
  KellyFraction_f :: float64
  HalfKellySuggested_f :: float64
  Assessment_f :: string
  BuyZoneMin_f :: float64
  BuyZoneMax_f :: float64
  SellZoneLowerBound_f :: float64
  SellZoneUpperBound_f :: float64
  SellZoneStatus_f :: string

definition defaultProbabilityPositive_f :: float64 where
  "defaultProbabilityPositive_f = Fin (65 / 100)"

definition riskFreeRatePercent_f :: float64 where
  "riskFreeRatePercent_f = Fin 4"

definition minDownsideMagnitude_f :: float64 where
  "minDownsideMagnitude_f = Fin (1 / 10)"

definition solvePriceForEVThreshold_f ::
  "float64 \<Rightarrow> float64 \<Rightarrow> float64 \<Rightarrow> float64 \<Rightarrow> float64 \<times> bool" where
  "solvePriceForEVThreshold_f fairValue probabilityPositive downsideRisk evThreshold =
    (let downsideMagnitude = \<bar>downsideRisk\<bar>;
         denominator = evThreshold + (Fin 100 * probabilityPositive)
                        + ((Fin 1 - probabilityPositive) * downsideMagnitude)
     in if denominator \<le> Fin 0 then (Fin 0, False)
        else let price = (Fin 100 * probabilityPositive * fairValue) / denominator
             in if isNaN price \<or> isInf price \<or> price \<le> Fin 0 then (Fin 0, False)
                else (price, True))"

definition calibrateDownsideRisk_f :: "float64 \<Rightarrow> float64" where
  "calibrateDownsideRisk_f beta =
    (if beta < Fin (1 / 2) then Fin (- 15)
     else if beta < Fin 1 then Fin (- 20)
     else if beta < Fin (3 / 2) then Fin (- 25)
     else Fin (- 30))"

definition calibrateStep_f :: "Stock_f \<Rightarrow> Stock_f" where
  "calibrateStep_f stock =
    (if DownsideRisk_f stock = Fin 0 then
       (if Beta_f stock > Fin 0
        then stock\<lparr>DownsideRisk_f := calibrateDownsideRisk_f (Beta_f stock)\<rparr>
        else stock\<lparr>DownsideRisk_f := Fin (- 20)\<rparr>)
     else stock)"

definition upsideStep_f :: "Stock_f \<Rightarrow> Stock_f" where
  "upsideStep_f stock =
    (if CurrentPrice_f stock > Fin 0 \<and> FairValue_f stock > Fin 0 then
       stock\<lparr>UpsidePotential_f :=
         ((FairValue_f stock - CurrentPrice_f stock) / CurrentPrice_f stock) * Fin 100\<rparr>
     else stock)"

definition probabilityStep_f :: "Stock_f \<Rightarrow> Stock_f" where
  "probabilityStep_f stock =
    (if ProbabilityPositive_f stock \<le> Fin 0 \<or> ProbabilityPositive_f stock > Fin 1 then
       stock\<lparr>ProbabilityPositive_f := defaultProbabilityPositive_f\<rparr>
     else stock)"

definition bRatioStep_f :: "Stock_f \<Rightarrow> Stock_f" where
  "bRatioStep_f stock =
    (let downsideMagnitude = \<bar>DownsideRisk_f stock\<bar>;
         downsideMagnitude = (if downsideMagnitude < minDownsideMagnitude_f
                              then minDownsideMagnitude_f else downsideMagnitude)
     in stock\<lparr>BRatio_f := UpsidePotential_f stock / downsideMagnitude\<rparr>)"

definition expectedValueStep_f :: "Stock_f \<Rightarrow> Stock_f" where
  "expectedValueStep_f stock =
    stock\<lparr>ExpectedValue_f := (ProbabilityPositive_f stock * UpsidePotential_f stock)
               + ((Fin 1 - ProbabilityPositive_f stock) * DownsideRisk_f stock)\<rparr>"

definition kellyStep_f :: "Stock_f \<Rightarrow> Stock_f" where
  "kellyStep_f stock =
    (if BRatio_f stock > Fin 0 then
       (let kelly = ((BRatio_f stock * ProbabilityPositive_f stock)
                      - (Fin 1 - ProbabilityPositive_f stock)) / BRatio_f stock * Fin 100
        in if kelly < Fin 0 then stock\<lparr>KellyFraction_f := Fin 0\<rparr>
           else stock\<lparr>KellyFraction_f := kelly\<rparr>)
     else stock\<lparr>KellyFraction_f := Fin 0\<rparr>)"

definition halfKellyStep_f :: "Stock_f \<Rightarrow> Stock_f" where
  "halfKellyStep_f stock =
    (let half = KellyFraction_f stock / Fin 2
     in if half > Fin 15 then stock\<lparr>HalfKellySuggested_f := Fin 15\<rparr>
        else stock\<lparr>HalfKellySuggested_f := half\<rparr>)"

definition assessmentStep_f :: "Stock_f \<Rightarrow> Stock_f" where
  "assessmentStep_f stock =
    (if ExpectedValue_f stock > Fin 7 then stock\<lparr>Assessment_f := ''Add''\<rparr>
     else if ExpectedValue_f stock \<ge> Fin 3 \<and> ExpectedValue_f stock \<le> Fin 7
       then stock\<lparr>Assessment_f := ''Hold''\<rparr>
     else if ExpectedValue_f stock \<ge> Fin 0 \<and> ExpectedValue_f stock < Fin 3
       then stock\<lparr>Assessment_f := ''Trim''\<rparr>
     else stock\<lparr>Assessment_f := ''Sell''\<rparr>)"

definition buyZoneStep_f :: "Stock_f \<Rightarrow> Stock_f" where
  "buyZoneStep_f stock =
    (if FairValue_f stock > Fin 0 \<and> ProbabilityPositive_f stock > Fin 0 then
       (let required = (Fin 7 - (Fin 1 - ProbabilityPositive_f stock) * DownsideRisk_f stock)
                         / ProbabilityPositive_f stock
        in if required > Fin (- 100) then
             (let buyMax = FairValue_f stock / (Fin 1 + required / Fin 100)
              in stock\<lparr>BuyZoneMax_f := buyMax, BuyZoneMin_f := buyMax * Fin (90 / 100)\<rparr>)
           else stock\<lparr>BuyZoneMin_f := CurrentPrice_f stock * Fin (85 / 100),
                       BuyZoneMax_f := CurrentPrice_f stock * Fin (95 / 100)\<rparr>)
     else stock)"

definition sellZoneStep_f :: "Stock_f \<Rightarrow> Stock_f" where
  "sellZoneStep_f stock =
    (let (sellLowerBound, okTrim) =
           solvePriceForEVThreshold_f (FairValue_f stock) (ProbabilityPositive_f stock)
             (DownsideRisk_f stock) (Fin 3);
         (sellUpperBound, okSell) =
           solvePriceForEVThreshold_f (FairValue_f stock) (ProbabilityPositive_f stock)
             (DownsideRisk_f stock) (Fin 0)
     in if okTrim \<and> okSell \<and> sellLowerBound < sellUpperBound then
          stock\<lparr>SellZoneLowerBound_f := sellLowerBound,
                SellZoneUpperBound_f := sellUpperBound,
                SellZoneStatus_f :=
                  (if ExpectedValue_f stock > Fin 3 then ''Below sell zone''
                   else if ExpectedValue_f stock > Fin 0 then ''In trim zone''
                   else ''In sell zone'')\<rparr>
        else stock\<lparr>SellZoneLowerBound_f := Fin 0, SellZoneUpperBound_f := Fin 0,
                    SellZoneStatus_f := ''no sell zone''\<rparr>)"

definition CalculateMetrics_f :: "Stock_f \<Rightarrow> Stock_f" where
  "CalculateMetrics_f stock =
    sellZoneStep_f (buyZoneStep_f (assessmentStep_f (halfKellyStep_f (kellyStep_f
      (expectedValueStep_f (bRatioStep_f (probabilityStep_f (upsideStep_f
        (calibrateStep_f stock)))))))))"


text \<open>
  The aggregator. A key that the rate table does not have reads as zero, and a sector that
  the map does not have yet starts from zero.
\<close>

type_synonym rates_f = "string \<rightharpoonup> float64"

definition rateOf_f :: "rates_f \<Rightarrow> string \<Rightarrow> float64" where
  "rateOf_f fxRates currency = (case fxRates currency of None \<Rightarrow> Fin 0 | Some rate \<Rightarrow> rate)"

fun addWeight_f ::
  "string \<Rightarrow> float64 \<Rightarrow> (string \<times> float64) list \<Rightarrow> (string \<times> float64) list" where
  "addWeight_f sector w [] = [(sector, Fin 0 + w)]"
| "addWeight_f sector w ((k, v) # rest) =
    (if k = sector then (k, v + w) # rest else (k, v) # addWeight_f sector w rest)"

record PortfolioMetrics_f =
  TotalValue_f :: float64
  OverallEV_f :: float64
  WeightedVolatility_f :: float64
  SharpeRatio_f :: float64
  KellyUtilization_f :: float64
  SectorWeights_f :: "(string \<times> float64) list"

fun firstPass_f :: "rates_f \<Rightarrow> Stock_f list \<Rightarrow> float64 \<Rightarrow> float64 list \<times> float64" where
  "firstPass_f fxRates [] totalValue = ([], totalValue)"
| "firstPass_f fxRates (stock # rest) totalValue =
    (if SharesOwned_f stock \<le> 0 then
       (case firstPass_f fxRates rest totalValue of
          (vals, totalAfter) \<Rightarrow> (Fin 0 # vals, totalAfter))
     else
       (let fxRate = rateOf_f fxRates (Currency_f stock)
        in if fxRate \<le> Fin 0 then
             (case firstPass_f fxRates rest totalValue of
                (vals, totalAfter) \<Rightarrow> (Fin 0 # vals, totalAfter))
           else
             (let valueEUR = Fin (real_of_int (SharesOwned_f stock)) * CurrentPrice_f stock
                               / fxRate
              in case firstPass_f fxRates rest (totalValue + valueEUR) of
                   (vals, totalAfter) \<Rightarrow> (valueEUR # vals, totalAfter))))"

record Aggregates_f =
  weightedEV_f :: float64
  weightedVolatility_f :: float64
  sectorWeights_f :: "(string \<times> float64) list"
  kellyUtilization_f :: float64

fun secondPass_f :: "float64 \<Rightarrow> (Stock_f \<times> float64) list \<Rightarrow> Aggregates_f \<Rightarrow> Aggregates_f" where
  "secondPass_f totalValue [] acc = acc"
| "secondPass_f totalValue ((stock, stockValue) # rest) acc =
    (if SharesOwned_f stock \<le> 0 then secondPass_f totalValue rest acc
     else if totalValue > Fin 0 \<and> stockValue > Fin 0 then
       (let weight = stockValue / totalValue
        in secondPass_f totalValue rest
             (acc\<lparr>weightedEV_f := weightedEV_f acc + ExpectedValue_f stock * weight,
                  weightedVolatility_f := weightedVolatility_f acc + Volatility_f stock * weight,
                  sectorWeights_f :=
                    addWeight_f (Sector_f stock) (weight * Fin 100) (sectorWeights_f acc),
                  kellyUtilization_f := kellyUtilization_f acc + weight * Fin 100\<rparr>))
     else secondPass_f totalValue rest acc)"

definition summarise_f :: "float64 \<Rightarrow> Aggregates_f \<Rightarrow> PortfolioMetrics_f" where
  "summarise_f totalValue acc =
    (let sharpeRatio = (if weightedVolatility_f acc > Fin 0
                        then (weightedEV_f acc - riskFreeRatePercent_f) / weightedVolatility_f acc
                        else Fin 0)
     in \<lparr>TotalValue_f = totalValue, OverallEV_f = weightedEV_f acc,
         WeightedVolatility_f = weightedVolatility_f acc, SharpeRatio_f = sharpeRatio,
         KellyUtilization_f = kellyUtilization_f acc, SectorWeights_f = sectorWeights_f acc\<rparr>)"

definition noAggregates_f :: Aggregates_f where
  "noAggregates_f = \<lparr>weightedEV_f = Fin 0, weightedVolatility_f = Fin 0, sectorWeights_f = [],
                      kellyUtilization_f = Fin 0\<rparr>"

definition CalculatePortfolioMetrics_f :: "Stock_f list \<Rightarrow> rates_f \<Rightarrow> PortfolioMetrics_f" where
  "CalculatePortfolioMetrics_f stocks fxRates =
    (case firstPass_f fxRates stocks (Fin 0) of
       (stockValues, totalValue) \<Rightarrow>
         summarise_f totalValue
           (secondPass_f totalValue (zip stocks stockValues) noAggregates_f))"

definition noMetrics_f :: PortfolioMetrics_f where
  "noMetrics_f = \<lparr>TotalValue_f = Fin 0, OverallEV_f = Fin 0, WeightedVolatility_f = Fin 0,
     SharpeRatio_f = Fin 0, KellyUtilization_f = Fin 0, SectorWeights_f = []\<rparr>"

text \<open>
  Predicates of the statements: a finite positive number, a finite number that is not
  negative, a finite number within 0.1 of a given one; and the sum of the values of the
  sector map, added up as \<^verbatim>\<open>float64\<close> values.
\<close>

fun finitePositive :: "float64 \<Rightarrow> bool" where
  "finitePositive (Fin r) \<longleftrightarrow> 0 < r"
| "finitePositive x \<longleftrightarrow> False"

fun finiteNonNegative :: "float64 \<Rightarrow> bool" where
  "finiteNonNegative (Fin r) \<longleftrightarrow> 0 \<le> r"
| "finiteNonNegative x \<longleftrightarrow> False"

fun withinTenthOf :: "real \<Rightarrow> float64 \<Rightarrow> bool" where
  "withinTenthOf c (Fin r) \<longleftrightarrow> \<bar>r - c\<bar> \<le> 1 / 10"
| "withinTenthOf c x \<longleftrightarrow> False"

definition sumWeights :: "(string \<times> float64) list \<Rightarrow> float64" where
  "sumWeights weights = foldl (+) (Fin 0) (map snd weights)"

text \<open>
  For the proofs: the number behind a finite value, the value of a position in the base
  currency as a number, and a sector map of finite values.
\<close>

fun realOf :: "float64 \<Rightarrow> real" where
  "realOf (Fin r) = r"
| "realOf x = 0"

definition positionValue_f :: "rates_f \<Rightarrow> Stock_f \<Rightarrow> real" where
  "positionValue_f fxRates stock =
    (if 0 < SharesOwned_f stock
     then real_of_int (SharesOwned_f stock) * realOf (CurrentPrice_f stock)
            / realOf (rateOf_f fxRates (Currency_f stock))
     else 0)"

definition finWeights :: "(string \<times> real) list \<Rightarrow> (string \<times> float64) list" where
  "finWeights weights = map (\<lambda>(k, x). (k, Fin x)) weights"

text \<open>
  Sample records: the zero value, the stocks and the rate table of the test suite, a stock
  with a price of \<open>1e-10\<close> and a fair value of \<open>1e300\<close>, one with a fair value of \<open>2^1020\<close>, a
  position with a negative price and one with a price of \<open>2^1023\<close>.
\<close>

definition zeroStock_f :: Stock_f where
  "zeroStock_f = \<lparr>Ticker_f = [], Sector_f = [], Currency_f = [], CurrentPrice_f = Fin 0,
     FairValue_f = Fin 0, Beta_f = Fin 0, ProbabilityPositive_f = Fin 0, DownsideRisk_f = Fin 0,
     SharesOwned_f = 0, AvgPriceLocal_f = Fin 0, Volatility_f = Fin 0, UpsidePotential_f = Fin 0,
     BRatio_f = Fin 0, ExpectedValue_f = Fin 0, KellyFraction_f = Fin 0,
     HalfKellySuggested_f = Fin 0, Assessment_f = [], BuyZoneMin_f = Fin 0, BuyZoneMax_f = Fin 0,
     SellZoneLowerBound_f = Fin 0, SellZoneUpperBound_f = Fin 0, SellZoneStatus_f = []\<rparr>"


definition tinyPrice :: real where
  "tinyPrice = 1 / 10 ^ 10"

definition hugeValue :: real where
  "hugeValue = 10 ^ 300"

definition overflowStock :: Stock_f where
  "overflowStock = zeroStock_f\<lparr>CurrentPrice_f := Fin tinyPrice, FairValue_f := Fin hugeValue,
     ProbabilityPositive_f := Fin (1 / 2), DownsideRisk_f := Fin (- 20)\<rparr>"



definition techStock_f :: Stock_f where
  "techStock_f = zeroStock_f\<lparr>SharesOwned_f := 10, CurrentPrice_f := Fin 100,
     Currency_f := ''USD'', ExpectedValue_f := Fin 5, Volatility_f := Fin 10,
     Sector_f := ''Tech''\<rparr>"

definition healthStock_f :: Stock_f where
  "healthStock_f = zeroStock_f\<lparr>SharesOwned_f := 5, CurrentPrice_f := Fin 200,
     Currency_f := ''EUR'', ExpectedValue_f := Fin 1, Volatility_f := Fin 20,
     Sector_f := ''Health''\<rparr>"

definition ignoredStock_f :: Stock_f where
  "ignoredStock_f = zeroStock_f\<lparr>SharesOwned_f := 0, CurrentPrice_f := Fin 999,
     Currency_f := ''USD'', Sector_f := ''Ignored''\<rparr>"

definition testRates_f :: rates_f where
  "testRates_f = [''USD'' \<mapsto> Fin 1, ''EUR'' \<mapsto> Fin 2]"

definition negativePriceStock_f :: Stock_f where
  "negativePriceStock_f = zeroStock_f\<lparr>SharesOwned_f := 1, CurrentPrice_f := Fin (- 50),
     Currency_f := ''USD'', Sector_f := ''Other''\<rparr>"

definition hugePrice :: real where
  "hugePrice = 2 ^ 1023"

definition hugePriceStock :: Stock_f where
  "hugePriceStock = zeroStock_f\<lparr>SharesOwned_f := 1, CurrentPrice_f := Fin hugePrice,
     Currency_f := ''USD'', Sector_f := ''Tech''\<rparr>"

section \<open>How each step writes the record\<close>

text \<open>A step leaves every field alone but the ones it assigns.\<close>

lemma calibrateStep_frame [simp]:
  "Ticker (calibrateStep stock) = Ticker stock"
  "Sector (calibrateStep stock) = Sector stock"
  "Currency (calibrateStep stock) = Currency stock"
  "CurrentPrice (calibrateStep stock) = CurrentPrice stock"
  "FairValue (calibrateStep stock) = FairValue stock"
  "Beta (calibrateStep stock) = Beta stock"
  "ProbabilityPositive (calibrateStep stock) = ProbabilityPositive stock"
  "SharesOwned (calibrateStep stock) = SharesOwned stock"
  "AvgPriceLocal (calibrateStep stock) = AvgPriceLocal stock"
  "Volatility (calibrateStep stock) = Volatility stock"
  "UpsidePotential (calibrateStep stock) = UpsidePotential stock"
  "BRatio (calibrateStep stock) = BRatio stock"
  "ExpectedValue (calibrateStep stock) = ExpectedValue stock"
  "KellyFraction (calibrateStep stock) = KellyFraction stock"
  "HalfKellySuggested (calibrateStep stock) = HalfKellySuggested stock"
  "Assessment (calibrateStep stock) = Assessment stock"
  "BuyZoneMin (calibrateStep stock) = BuyZoneMin stock"
  "BuyZoneMax (calibrateStep stock) = BuyZoneMax stock"
  "SellZoneLowerBound (calibrateStep stock) = SellZoneLowerBound stock"
  "SellZoneUpperBound (calibrateStep stock) = SellZoneUpperBound stock"
  "SellZoneStatus (calibrateStep stock) = SellZoneStatus stock"
  by (simp_all add: calibrateStep_def)

lemma upsideStep_frame [simp]:
  "Ticker (upsideStep stock) = Ticker stock"
  "Sector (upsideStep stock) = Sector stock"
  "Currency (upsideStep stock) = Currency stock"
  "CurrentPrice (upsideStep stock) = CurrentPrice stock"
  "FairValue (upsideStep stock) = FairValue stock"
  "Beta (upsideStep stock) = Beta stock"
  "ProbabilityPositive (upsideStep stock) = ProbabilityPositive stock"
  "DownsideRisk (upsideStep stock) = DownsideRisk stock"
  "SharesOwned (upsideStep stock) = SharesOwned stock"
  "AvgPriceLocal (upsideStep stock) = AvgPriceLocal stock"
  "Volatility (upsideStep stock) = Volatility stock"
  "BRatio (upsideStep stock) = BRatio stock"
  "ExpectedValue (upsideStep stock) = ExpectedValue stock"
  "KellyFraction (upsideStep stock) = KellyFraction stock"
  "HalfKellySuggested (upsideStep stock) = HalfKellySuggested stock"
  "Assessment (upsideStep stock) = Assessment stock"
  "BuyZoneMin (upsideStep stock) = BuyZoneMin stock"
  "BuyZoneMax (upsideStep stock) = BuyZoneMax stock"
  "SellZoneLowerBound (upsideStep stock) = SellZoneLowerBound stock"
  "SellZoneUpperBound (upsideStep stock) = SellZoneUpperBound stock"
  "SellZoneStatus (upsideStep stock) = SellZoneStatus stock"
  by (simp_all add: upsideStep_def)

lemma probabilityStep_frame [simp]:
  "Ticker (probabilityStep stock) = Ticker stock"
  "Sector (probabilityStep stock) = Sector stock"
  "Currency (probabilityStep stock) = Currency stock"
  "CurrentPrice (probabilityStep stock) = CurrentPrice stock"
  "FairValue (probabilityStep stock) = FairValue stock"
  "Beta (probabilityStep stock) = Beta stock"
  "DownsideRisk (probabilityStep stock) = DownsideRisk stock"
  "SharesOwned (probabilityStep stock) = SharesOwned stock"
  "AvgPriceLocal (probabilityStep stock) = AvgPriceLocal stock"
  "Volatility (probabilityStep stock) = Volatility stock"
  "UpsidePotential (probabilityStep stock) = UpsidePotential stock"
  "BRatio (probabilityStep stock) = BRatio stock"
  "ExpectedValue (probabilityStep stock) = ExpectedValue stock"
  "KellyFraction (probabilityStep stock) = KellyFraction stock"
  "HalfKellySuggested (probabilityStep stock) = HalfKellySuggested stock"
  "Assessment (probabilityStep stock) = Assessment stock"
  "BuyZoneMin (probabilityStep stock) = BuyZoneMin stock"
  "BuyZoneMax (probabilityStep stock) = BuyZoneMax stock"
  "SellZoneLowerBound (probabilityStep stock) = SellZoneLowerBound stock"
  "SellZoneUpperBound (probabilityStep stock) = SellZoneUpperBound stock"
  "SellZoneStatus (probabilityStep stock) = SellZoneStatus stock"
  by (simp_all add: probabilityStep_def)

lemma bRatioStep_frame [simp]:
  "Ticker (bRatioStep stock) = Ticker stock"
  "Sector (bRatioStep stock) = Sector stock"
  "Currency (bRatioStep stock) = Currency stock"
  "CurrentPrice (bRatioStep stock) = CurrentPrice stock"
  "FairValue (bRatioStep stock) = FairValue stock"
  "Beta (bRatioStep stock) = Beta stock"
  "ProbabilityPositive (bRatioStep stock) = ProbabilityPositive stock"
  "DownsideRisk (bRatioStep stock) = DownsideRisk stock"
  "SharesOwned (bRatioStep stock) = SharesOwned stock"
  "AvgPriceLocal (bRatioStep stock) = AvgPriceLocal stock"
  "Volatility (bRatioStep stock) = Volatility stock"
  "UpsidePotential (bRatioStep stock) = UpsidePotential stock"
  "ExpectedValue (bRatioStep stock) = ExpectedValue stock"
  "KellyFraction (bRatioStep stock) = KellyFraction stock"
  "HalfKellySuggested (bRatioStep stock) = HalfKellySuggested stock"
  "Assessment (bRatioStep stock) = Assessment stock"
  "BuyZoneMin (bRatioStep stock) = BuyZoneMin stock"
  "BuyZoneMax (bRatioStep stock) = BuyZoneMax stock"
  "SellZoneLowerBound (bRatioStep stock) = SellZoneLowerBound stock"
  "SellZoneUpperBound (bRatioStep stock) = SellZoneUpperBound stock"
  "SellZoneStatus (bRatioStep stock) = SellZoneStatus stock"
  by (simp_all add: bRatioStep_def Let_def)

lemma expectedValueStep_frame [simp]:
  "Ticker (expectedValueStep stock) = Ticker stock"
  "Sector (expectedValueStep stock) = Sector stock"
  "Currency (expectedValueStep stock) = Currency stock"
  "CurrentPrice (expectedValueStep stock) = CurrentPrice stock"
  "FairValue (expectedValueStep stock) = FairValue stock"
  "Beta (expectedValueStep stock) = Beta stock"
  "ProbabilityPositive (expectedValueStep stock) = ProbabilityPositive stock"
  "DownsideRisk (expectedValueStep stock) = DownsideRisk stock"
  "SharesOwned (expectedValueStep stock) = SharesOwned stock"
  "AvgPriceLocal (expectedValueStep stock) = AvgPriceLocal stock"
  "Volatility (expectedValueStep stock) = Volatility stock"
  "UpsidePotential (expectedValueStep stock) = UpsidePotential stock"
  "BRatio (expectedValueStep stock) = BRatio stock"
  "KellyFraction (expectedValueStep stock) = KellyFraction stock"
  "HalfKellySuggested (expectedValueStep stock) = HalfKellySuggested stock"
  "Assessment (expectedValueStep stock) = Assessment stock"
  "BuyZoneMin (expectedValueStep stock) = BuyZoneMin stock"
  "BuyZoneMax (expectedValueStep stock) = BuyZoneMax stock"
  "SellZoneLowerBound (expectedValueStep stock) = SellZoneLowerBound stock"
  "SellZoneUpperBound (expectedValueStep stock) = SellZoneUpperBound stock"
  "SellZoneStatus (expectedValueStep stock) = SellZoneStatus stock"
  by (simp_all add: expectedValueStep_def)

lemma kellyStep_frame [simp]:
  "Ticker (kellyStep stock) = Ticker stock"
  "Sector (kellyStep stock) = Sector stock"
  "Currency (kellyStep stock) = Currency stock"
  "CurrentPrice (kellyStep stock) = CurrentPrice stock"
  "FairValue (kellyStep stock) = FairValue stock"
  "Beta (kellyStep stock) = Beta stock"
  "ProbabilityPositive (kellyStep stock) = ProbabilityPositive stock"
  "DownsideRisk (kellyStep stock) = DownsideRisk stock"
  "SharesOwned (kellyStep stock) = SharesOwned stock"
  "AvgPriceLocal (kellyStep stock) = AvgPriceLocal stock"
  "Volatility (kellyStep stock) = Volatility stock"
  "UpsidePotential (kellyStep stock) = UpsidePotential stock"
  "BRatio (kellyStep stock) = BRatio stock"
  "ExpectedValue (kellyStep stock) = ExpectedValue stock"
  "HalfKellySuggested (kellyStep stock) = HalfKellySuggested stock"
  "Assessment (kellyStep stock) = Assessment stock"
  "BuyZoneMin (kellyStep stock) = BuyZoneMin stock"
  "BuyZoneMax (kellyStep stock) = BuyZoneMax stock"
  "SellZoneLowerBound (kellyStep stock) = SellZoneLowerBound stock"
  "SellZoneUpperBound (kellyStep stock) = SellZoneUpperBound stock"
  "SellZoneStatus (kellyStep stock) = SellZoneStatus stock"
  by (simp_all add: kellyStep_def Let_def)

lemma halfKellyStep_frame [simp]:
  "Ticker (halfKellyStep stock) = Ticker stock"
  "Sector (halfKellyStep stock) = Sector stock"
  "Currency (halfKellyStep stock) = Currency stock"
  "CurrentPrice (halfKellyStep stock) = CurrentPrice stock"
  "FairValue (halfKellyStep stock) = FairValue stock"
  "Beta (halfKellyStep stock) = Beta stock"
  "ProbabilityPositive (halfKellyStep stock) = ProbabilityPositive stock"
  "DownsideRisk (halfKellyStep stock) = DownsideRisk stock"
  "SharesOwned (halfKellyStep stock) = SharesOwned stock"
  "AvgPriceLocal (halfKellyStep stock) = AvgPriceLocal stock"
  "Volatility (halfKellyStep stock) = Volatility stock"
  "UpsidePotential (halfKellyStep stock) = UpsidePotential stock"
  "BRatio (halfKellyStep stock) = BRatio stock"
  "ExpectedValue (halfKellyStep stock) = ExpectedValue stock"
  "KellyFraction (halfKellyStep stock) = KellyFraction stock"
  "Assessment (halfKellyStep stock) = Assessment stock"
  "BuyZoneMin (halfKellyStep stock) = BuyZoneMin stock"
  "BuyZoneMax (halfKellyStep stock) = BuyZoneMax stock"
  "SellZoneLowerBound (halfKellyStep stock) = SellZoneLowerBound stock"
  "SellZoneUpperBound (halfKellyStep stock) = SellZoneUpperBound stock"
  "SellZoneStatus (halfKellyStep stock) = SellZoneStatus stock"
  by (simp_all add: halfKellyStep_def Let_def)

lemma assessmentStep_frame [simp]:
  "Ticker (assessmentStep stock) = Ticker stock"
  "Sector (assessmentStep stock) = Sector stock"
  "Currency (assessmentStep stock) = Currency stock"
  "CurrentPrice (assessmentStep stock) = CurrentPrice stock"
  "FairValue (assessmentStep stock) = FairValue stock"
  "Beta (assessmentStep stock) = Beta stock"
  "ProbabilityPositive (assessmentStep stock) = ProbabilityPositive stock"
  "DownsideRisk (assessmentStep stock) = DownsideRisk stock"
  "SharesOwned (assessmentStep stock) = SharesOwned stock"
  "AvgPriceLocal (assessmentStep stock) = AvgPriceLocal stock"
  "Volatility (assessmentStep stock) = Volatility stock"
  "UpsidePotential (assessmentStep stock) = UpsidePotential stock"
  "BRatio (assessmentStep stock) = BRatio stock"
  "ExpectedValue (assessmentStep stock) = ExpectedValue stock"
  "KellyFraction (assessmentStep stock) = KellyFraction stock"
  "HalfKellySuggested (assessmentStep stock) = HalfKellySuggested stock"
  "BuyZoneMin (assessmentStep stock) = BuyZoneMin stock"
  "BuyZoneMax (assessmentStep stock) = BuyZoneMax stock"
  "SellZoneLowerBound (assessmentStep stock) = SellZoneLowerBound stock"
  "SellZoneUpperBound (assessmentStep stock) = SellZoneUpperBound stock"
  "SellZoneStatus (assessmentStep stock) = SellZoneStatus stock"
  by (simp_all add: assessmentStep_def)

lemma buyZoneStep_frame [simp]:
  "Ticker (buyZoneStep stock) = Ticker stock"
  "Sector (buyZoneStep stock) = Sector stock"
  "Currency (buyZoneStep stock) = Currency stock"
  "CurrentPrice (buyZoneStep stock) = CurrentPrice stock"
  "FairValue (buyZoneStep stock) = FairValue stock"
  "Beta (buyZoneStep stock) = Beta stock"
  "ProbabilityPositive (buyZoneStep stock) = ProbabilityPositive stock"
  "DownsideRisk (buyZoneStep stock) = DownsideRisk stock"
  "SharesOwned (buyZoneStep stock) = SharesOwned stock"
  "AvgPriceLocal (buyZoneStep stock) = AvgPriceLocal stock"
  "Volatility (buyZoneStep stock) = Volatility stock"
  "UpsidePotential (buyZoneStep stock) = UpsidePotential stock"
  "BRatio (buyZoneStep stock) = BRatio stock"
  "ExpectedValue (buyZoneStep stock) = ExpectedValue stock"
  "KellyFraction (buyZoneStep stock) = KellyFraction stock"
  "HalfKellySuggested (buyZoneStep stock) = HalfKellySuggested stock"
  "Assessment (buyZoneStep stock) = Assessment stock"
  "SellZoneLowerBound (buyZoneStep stock) = SellZoneLowerBound stock"
  "SellZoneUpperBound (buyZoneStep stock) = SellZoneUpperBound stock"
  "SellZoneStatus (buyZoneStep stock) = SellZoneStatus stock"
  by (simp_all add: buyZoneStep_def Let_def)

lemma sellZoneStep_frame [simp]:
  "Ticker (sellZoneStep stock) = Ticker stock"
  "Sector (sellZoneStep stock) = Sector stock"
  "Currency (sellZoneStep stock) = Currency stock"
  "CurrentPrice (sellZoneStep stock) = CurrentPrice stock"
  "FairValue (sellZoneStep stock) = FairValue stock"
  "Beta (sellZoneStep stock) = Beta stock"
  "ProbabilityPositive (sellZoneStep stock) = ProbabilityPositive stock"
  "DownsideRisk (sellZoneStep stock) = DownsideRisk stock"
  "SharesOwned (sellZoneStep stock) = SharesOwned stock"
  "AvgPriceLocal (sellZoneStep stock) = AvgPriceLocal stock"
  "Volatility (sellZoneStep stock) = Volatility stock"
  "UpsidePotential (sellZoneStep stock) = UpsidePotential stock"
  "BRatio (sellZoneStep stock) = BRatio stock"
  "ExpectedValue (sellZoneStep stock) = ExpectedValue stock"
  "KellyFraction (sellZoneStep stock) = KellyFraction stock"
  "HalfKellySuggested (sellZoneStep stock) = HalfKellySuggested stock"
  "Assessment (sellZoneStep stock) = Assessment stock"
  "BuyZoneMin (sellZoneStep stock) = BuyZoneMin stock"
  "BuyZoneMax (sellZoneStep stock) = BuyZoneMax stock"
  by (simp_all add: sellZoneStep_def Let_def split: prod.splits)

text \<open>The value that each step assigns, from the record it is given.\<close>

lemma calibrateStep_out:
  "DownsideRisk (calibrateStep x) =
    (if DownsideRisk x = 0
     then (if Beta x > 0 then calibrateDownsideRisk (Beta x) else - 20)
     else DownsideRisk x)"
  by (simp add: calibrateStep_def)

lemma probabilityStep_out:
  "ProbabilityPositive (probabilityStep x) =
    (if ProbabilityPositive x \<le> 0 \<or> ProbabilityPositive x > 1
     then defaultProbabilityPositive else ProbabilityPositive x)"
  by (simp add: probabilityStep_def)

lemma assessmentStep_out:
  "Assessment (assessmentStep x) =
    (if ExpectedValue x > 7 then ''Add''
     else if 3 \<le> ExpectedValue x then ''Hold''
     else if 0 \<le> ExpectedValue x then ''Trim''
     else ''Sell'')"
  by (simp add: assessmentStep_def)

lemma buyZoneStep_out:
  "BuyZoneMax (buyZoneStep x) =
    (if FairValue x > 0 \<and> ProbabilityPositive x > 0
     then (if requiredUpside (ProbabilityPositive x) (DownsideRisk x) > - 100
           then FairValue x / (1 + requiredUpside (ProbabilityPositive x) (DownsideRisk x) / 100)
           else CurrentPrice x * (95 / 100))
     else BuyZoneMax x)"
  "BuyZoneMin (buyZoneStep x) =
    (if FairValue x > 0 \<and> ProbabilityPositive x > 0
     then (if requiredUpside (ProbabilityPositive x) (DownsideRisk x) > - 100
           then FairValue x / (1 + requiredUpside (ProbabilityPositive x) (DownsideRisk x) / 100)
                  * (90 / 100)
           else CurrentPrice x * (85 / 100))
     else BuyZoneMin x)"
  by (simp_all add: buyZoneStep_def Let_def)

section \<open>The record after \<^verbatim>\<open>CalculateMetrics\<close>\<close>

text \<open>
  Fields of the result, from the raw inputs or from fields of the result that were final
  when they were assigned.
\<close>

lemma probability_range:
  "0 < ProbabilityPositive (CalculateMetrics s) \<and> ProbabilityPositive (CalculateMetrics s) \<le> 1"
  by (simp add: CalculateMetrics_def probabilityStep_out defaultProbabilityPositive_def)

lemma CM_Assessment:
  "Assessment (CalculateMetrics s) =
    (if ExpectedValue (CalculateMetrics s) > 7 then ''Add''
     else if 3 \<le> ExpectedValue (CalculateMetrics s) then ''Hold''
     else if 0 \<le> ExpectedValue (CalculateMetrics s) then ''Trim''
     else ''Sell'')"
  by (simp add: CalculateMetrics_def assessmentStep_out)

lemma CM_DownsideRisk:
  "DownsideRisk (CalculateMetrics s) =
    (if DownsideRisk s = 0
     then (if Beta s > 0 then calibrateDownsideRisk (Beta s) else - 20)
     else DownsideRisk s)"
  by (simp add: CalculateMetrics_def calibrateStep_out)

lemma CM_BuyZone:
  "BuyZoneMax (CalculateMetrics s) =
    (if FairValue s > 0
     then (if requiredUpside (ProbabilityPositive (CalculateMetrics s))
                (DownsideRisk (CalculateMetrics s)) > - 100
           then FairValue s / (1 + requiredUpside (ProbabilityPositive (CalculateMetrics s))
                                      (DownsideRisk (CalculateMetrics s)) / 100)
           else CurrentPrice s * (95 / 100))
     else BuyZoneMax s)"
  "BuyZoneMin (CalculateMetrics s) =
    (if FairValue s > 0
     then (if requiredUpside (ProbabilityPositive (CalculateMetrics s))
                (DownsideRisk (CalculateMetrics s)) > - 100
           then FairValue s / (1 + requiredUpside (ProbabilityPositive (CalculateMetrics s))
                                      (DownsideRisk (CalculateMetrics s)) / 100) * (90 / 100)
           else CurrentPrice s * (85 / 100))
     else BuyZoneMin s)"
  using probability_range [of s]
  by (simp_all add: CalculateMetrics_def buyZoneStep_out)

section \<open>The solver in exact arithmetic\<close>

lemma solver_denominator_pos:
  assumes "0 < p" "p \<le> 1" "0 \<le> thr"
  shows "0 < thr + 100 * p + (1 - p) * \<bar>d :: real\<bar>"
proof -
  have "0 \<le> (1 - p) * \<bar>d\<bar>" using assms by simp
  moreover have "0 < 100 * p" using assms by simp
  ultimately show ?thesis using assms by linarith
qed

lemma solver_feasible:
  assumes "0 < p" "p \<le> 1" "0 \<le> thr" "0 < fv"
  shows "solvePriceForEVThreshold fv p d thr =
          (100 * p * fv / (thr + 100 * p + (1 - p) * \<bar>d\<bar>), True)"
proof -
  have den: "0 < thr + 100 * p + (1 - p) * \<bar>d\<bar>"
    using assms by (simp add: solver_denominator_pos)
  have "0 < 100 * p * fv" using assms by simp
  then have "0 < 100 * p * fv / (thr + 100 * p + (1 - p) * \<bar>d\<bar>)"
    using den by simp
  then show ?thesis using den
    by (simp add: solvePriceForEVThreshold_def Let_def not_le [symmetric])
qed

section \<open>Position metrics: the claims\<close>

lemmas step_defs = calibrateStep_def upsideStep_def probabilityStep_def bRatioStep_def
  expectedValueStep_def kellyStep_def halfKellyStep_def assessmentStep_def buyZoneStep_def
  sellZoneStep_def requiredUpside_def solvePriceForEVThreshold_def calibrateDownsideRisk_def
  defaultProbabilityPositive_def minDownsideMagnitude_def

text \<open>
  Claim C3. A zero \<^verbatim>\<open>DownsideRisk\<close> is replaced by \<open>-30\<close> for a beta of at least 1.5, by
  \<open>-25\<close> for a beta in [1.0, 1.5), by \<open>-20\<close> for a beta in [0.5, 1.0), by \<open>-15\<close> for a beta
  in (0, 0.5), and by \<open>-20\<close> for a beta that is zero or negative. A \<^verbatim>\<open>DownsideRisk\<close> that
  is not zero is left as given, whatever the beta.
\<close>

theorem downside_risk_calibration:
  "(DownsideRisk s = 0 \<longrightarrow>
      (3 / 2 \<le> Beta s \<longrightarrow> DownsideRisk (CalculateMetrics s) = - 30) \<and>
      (1 \<le> Beta s \<and> Beta s < 3 / 2 \<longrightarrow> DownsideRisk (CalculateMetrics s) = - 25) \<and>
      (1 / 2 \<le> Beta s \<and> Beta s < 1 \<longrightarrow> DownsideRisk (CalculateMetrics s) = - 20) \<and>
      (0 < Beta s \<and> Beta s < 1 / 2 \<longrightarrow> DownsideRisk (CalculateMetrics s) = - 15) \<and>
      (Beta s \<le> 0 \<longrightarrow> DownsideRisk (CalculateMetrics s) = - 20)) \<and>
   (DownsideRisk s \<noteq> 0 \<longrightarrow> DownsideRisk (CalculateMetrics s) = DownsideRisk s)"
  by (simp add: CM_DownsideRisk calibrateDownsideRisk_def)

theorem downside_risk_calibration_witness:
  "DownsideRisk (CalculateMetrics (zeroStock\<lparr>Beta := 2\<rparr>)) = - 30 \<and>
   DownsideRisk (CalculateMetrics (zeroStock\<lparr>Beta := 6 / 5\<rparr>)) = - 25 \<and>
   DownsideRisk (CalculateMetrics (zeroStock\<lparr>Beta := 7 / 10\<rparr>)) = - 20 \<and>
   DownsideRisk (CalculateMetrics (zeroStock\<lparr>Beta := 2 / 5\<rparr>)) = - 15 \<and>
   DownsideRisk (CalculateMetrics (zeroStock\<lparr>Beta := - 1\<rparr>)) = - 20 \<and>
   DownsideRisk (CalculateMetrics (zeroStock\<lparr>Beta := 2 / 5, DownsideRisk := - 10\<rparr>)) = - 10"
  using downside_risk_calibration [of "zeroStock\<lparr>Beta := 2\<rparr>"]
    downside_risk_calibration [of "zeroStock\<lparr>Beta := 6 / 5\<rparr>"]
    downside_risk_calibration [of "zeroStock\<lparr>Beta := 7 / 10\<rparr>"]
    downside_risk_calibration [of "zeroStock\<lparr>Beta := 2 / 5\<rparr>"]
    downside_risk_calibration [of "zeroStock\<lparr>Beta := - 1\<rparr>"]
    downside_risk_calibration [of "zeroStock\<lparr>Beta := 2 / 5, DownsideRisk := - 10\<rparr>"]
  by (simp add: zeroStock_def)

text \<open>
  Claim C4. The assessment is a partition of the computed expected value: ``Add'' exactly
  when EV > 7, ``Hold'' exactly when 3 \<le> EV \<le> 7, ``Trim'' exactly when 0 \<le> EV < 3, and
  ``Sell'' exactly when EV < 0.
\<close>

theorem assessment_partition:
  "(Assessment (CalculateMetrics s) = ''Add'' \<longleftrightarrow> ExpectedValue (CalculateMetrics s) > 7) \<and>
   (Assessment (CalculateMetrics s) = ''Hold'' \<longleftrightarrow>
      3 \<le> ExpectedValue (CalculateMetrics s) \<and> ExpectedValue (CalculateMetrics s) \<le> 7) \<and>
   (Assessment (CalculateMetrics s) = ''Trim'' \<longleftrightarrow>
      0 \<le> ExpectedValue (CalculateMetrics s) \<and> ExpectedValue (CalculateMetrics s) < 3) \<and>
   (Assessment (CalculateMetrics s) = ''Sell'' \<longleftrightarrow> ExpectedValue (CalculateMetrics s) < 0)"
  by (auto simp add: CM_Assessment)

lemma testStock_metrics:
  "CalculateMetrics testStock = testStock\<lparr>DownsideRisk := - 25, UpsidePotential := 20,
     ProbabilityPositive := 13 / 20, BRatio := 4 / 5, ExpectedValue := 17 / 4,
     KellyFraction := 85 / 4, HalfKellySuggested := 85 / 8, Assessment := ''Hold'',
     BuyZoneMax := 31200 / 323, BuyZoneMin := 28080 / 323,
     SellZoneLowerBound := 31200 / 307, SellZoneUpperBound := 31200 / 295,
     SellZoneStatus := ''Below sell zone''\<rparr>"
  by (simp add: CalculateMetrics_def testStock_def zeroStock_def step_defs Let_def)

theorem assessment_partition_witness:
  "Assessment (CalculateMetrics testStock) = ''Hold'' \<and>
   3 \<le> ExpectedValue (CalculateMetrics testStock) \<and>
   ExpectedValue (CalculateMetrics testStock) \<le> 7"
  using assessment_partition [of testStock] by (simp add: testStock_metrics)

lemma upside_at_quotient:
  fixes fv q :: real
  assumes "0 < fv" "0 < q"
  shows "(fv - fv / q) / (fv / q) * 100 = (q - 1) * 100"
  using assms by (simp add: field_simps)

lemma buy_zone_round_trip:
  fixes fv p d :: real
  assumes fv: "0 < fv" and p: "p \<noteq> 0" and ru: "- 100 < requiredUpside p d"
  shows "expectedValueAtPrice fv p d (fv / (1 + requiredUpside p d / 100)) = 7"
proof -
  let ?r = "requiredUpside p d"
  have den: "0 < 1 + ?r / 100" using ru by simp
  then have price: "0 < fv / (1 + ?r / 100)" using fv by simp
  have "(fv - fv / (1 + ?r / 100)) / (fv / (1 + ?r / 100)) * 100 = ?r"
    using upside_at_quotient [OF fv den] by simp
  moreover have "p * ?r + (1 - p) * d = 7"
    using p by (simp add: requiredUpside_def)
  ultimately show ?thesis using price
    by (simp add: expectedValueAtPrice_def Let_def not_le [symmetric])
qed

lemma buy_zone_closed_form:
  fixes fv p d :: real
  assumes p: "0 < p" "p \<le> 1" and d: "d \<le> 0"
  shows "- 100 < requiredUpside p d"
    and "fv / (1 + requiredUpside p d / 100) = 100 * p * fv / (7 + 100 * p + (1 - p) * \<bar>d\<bar>)"
proof -
  have nn: "0 \<le> (1 - p) * \<bar>d\<bar>" using p by simp
  have abs: "\<bar>d\<bar> = - d" using d by simp
  have num: "0 < 7 - (1 - p) * d" using nn abs by simp
  then have "0 < requiredUpside p d" using p by (simp add: requiredUpside_def)
  then show "- 100 < requiredUpside p d" by simp
  have den: "0 < 7 + 100 * p + (1 - p) * \<bar>d\<bar>"
    using p solver_denominator_pos [of p 7 d] by simp
  have "1 + requiredUpside p d / 100 = (7 + 100 * p + (1 - p) * \<bar>d\<bar>) / (100 * p)"
    using p by (simp add: requiredUpside_def abs field_simps)
  then show "fv / (1 + requiredUpside p d / 100) = 100 * p * fv / (7 + 100 * p + (1 - p) * \<bar>d\<bar>)"
    by simp
qed

text \<open>
  Claim C2, amended. For a stock with a positive fair value on which step 9 takes the branch
  \<open>requiredUpside > -100\<close>, the forward formula at the computed \<^verbatim>\<open>BuyZoneMax\<close> gives
  exactly 7. When the downside risk given is zero or negative, that branch is always taken
  and \<^verbatim>\<open>BuyZoneMax\<close> is the price \<open>100 p FV / (7 + 100 p + (1 - p) |D|)\<close> that the
  threshold solver returns for the target 7.
\<close>

theorem buy_zone_max_round_trip:
  "(0 < FairValue s \<and>
    - 100 < requiredUpside (ProbabilityPositive (CalculateMetrics s))
              (DownsideRisk (CalculateMetrics s)) \<longrightarrow>
      expectedValueAtPrice (FairValue s) (ProbabilityPositive (CalculateMetrics s))
        (DownsideRisk (CalculateMetrics s)) (BuyZoneMax (CalculateMetrics s)) = 7) \<and>
   (0 < FairValue s \<and> DownsideRisk s \<le> 0 \<longrightarrow>
      - 100 < requiredUpside (ProbabilityPositive (CalculateMetrics s))
                (DownsideRisk (CalculateMetrics s)) \<and>
      BuyZoneMax (CalculateMetrics s) =
        100 * ProbabilityPositive (CalculateMetrics s) * FairValue s
        / (7 + 100 * ProbabilityPositive (CalculateMetrics s)
           + (1 - ProbabilityPositive (CalculateMetrics s)) * \<bar>DownsideRisk (CalculateMetrics s)\<bar>) \<and>
      solvePriceForEVThreshold (FairValue s) (ProbabilityPositive (CalculateMetrics s))
        (DownsideRisk (CalculateMetrics s)) 7 = (BuyZoneMax (CalculateMetrics s), True))"
proof (intro conjI impI)
  let ?p = "ProbabilityPositive (CalculateMetrics s)"
  let ?d = "DownsideRisk (CalculateMetrics s)"
  have p: "0 < ?p" "?p \<le> 1" using probability_range [of s] by simp_all
  {
    assume a: "0 < FairValue s \<and> - 100 < requiredUpside ?p ?d"
    then have "BuyZoneMax (CalculateMetrics s) = FairValue s / (1 + requiredUpside ?p ?d / 100)"
      by (simp add: CM_BuyZone)
    then show "expectedValueAtPrice (FairValue s) ?p ?d (BuyZoneMax (CalculateMetrics s)) = 7"
      using a p buy_zone_round_trip [of "FairValue s" ?p ?d] by simp
  }
  assume b: "0 < FairValue s \<and> DownsideRisk s \<le> 0"
  have d: "?d \<le> 0"
    using b by (simp add: CM_DownsideRisk calibrateDownsideRisk_def)
  show ru: "- 100 < requiredUpside ?p ?d"
    using p d by (rule buy_zone_closed_form)
  have "BuyZoneMax (CalculateMetrics s) = FairValue s / (1 + requiredUpside ?p ?d / 100)"
    using b ru by (simp add: CM_BuyZone)
  also have "\<dots> = 100 * ?p * FairValue s / (7 + 100 * ?p + (1 - ?p) * \<bar>?d\<bar>)"
    using p d by (rule buy_zone_closed_form)
  finally show closed: "BuyZoneMax (CalculateMetrics s) =
      100 * ?p * FairValue s / (7 + 100 * ?p + (1 - ?p) * \<bar>?d\<bar>)" .
  show "solvePriceForEVThreshold (FairValue s) ?p ?d 7 = (BuyZoneMax (CalculateMetrics s), True)"
    using p b by (simp add: solver_feasible closed)
qed

theorem buy_zone_max_round_trip_witness:
  "0 < FairValue testStock \<and> DownsideRisk testStock \<le> 0 \<and>
   - 100 < requiredUpside (13 / 20) (- 25) \<and>
   BuyZoneMax (CalculateMetrics testStock) = 31200 / 323 \<and>
   expectedValueAtPrice 120 (13 / 20) (- 25) (31200 / 323) = 7 \<and>
   solvePriceForEVThreshold 120 (13 / 20) (- 25) 7 = (31200 / 323, True)"
  using buy_zone_max_round_trip [of testStock]
  by (simp add: testStock_metrics) (simp add: testStock_def zeroStock_def requiredUpside_def)

text \<open>
  Claim C2 as written fails for a positive downside risk, where the inline inversion of
  step 9 works with \<open>D\<close> and the solver with \<open>|D|\<close>. For a fair value of 100, a probability of 1/2 and a
  downside risk of 10 the round trip still gives 7, at a \<^verbatim>\<open>BuyZoneMax\<close> of 1250/13, where
  the solver's formula gives 2500/31.
\<close>

theorem positive_downside_counterexample:
  "0 < FairValue positiveDownsideStock \<and>
   - 100 < requiredUpside (ProbabilityPositive (CalculateMetrics positiveDownsideStock))
             (DownsideRisk (CalculateMetrics positiveDownsideStock)) \<and>
   BuyZoneMax (CalculateMetrics positiveDownsideStock) = 1250 / 13 \<and>
   expectedValueAtPrice (FairValue positiveDownsideStock)
     (ProbabilityPositive (CalculateMetrics positiveDownsideStock))
     (DownsideRisk (CalculateMetrics positiveDownsideStock))
     (BuyZoneMax (CalculateMetrics positiveDownsideStock)) = 7 \<and>
   100 * ProbabilityPositive (CalculateMetrics positiveDownsideStock)
       * FairValue positiveDownsideStock
     / (7 + 100 * ProbabilityPositive (CalculateMetrics positiveDownsideStock)
        + (1 - ProbabilityPositive (CalculateMetrics positiveDownsideStock))
          * \<bar>DownsideRisk (CalculateMetrics positiveDownsideStock)\<bar>) = 2500 / 31 \<and>
   BuyZoneMax (CalculateMetrics positiveDownsideStock)
     \<noteq> fst (solvePriceForEVThreshold (FairValue positiveDownsideStock)
              (ProbabilityPositive (CalculateMetrics positiveDownsideStock))
              (DownsideRisk (CalculateMetrics positiveDownsideStock)) 7)"
  by (simp add: CalculateMetrics_def positiveDownsideStock_def zeroStock_def step_defs
      expectedValueAtPrice_def Let_def)

text \<open>
  Claim C1. Two stocks that agree on all raw inputs have the same derived fields after
  \<^verbatim>\<open>CalculateMetrics\<close>, whatever derived values they carried before the call. The code does
  not meet this. Step 2 assigns \<^verbatim>\<open>UpsidePotential\<close> only when current price and fair value
  are positive and has no else branch (steps 6 and 10 reset their fields in theirs), and
  steps 4 to 8 read the field. A record without a price that still carries an upside of 50
  comes out with an expected value of 25.5 and the assessment ``Add'', where the same inputs
  in a fresh record give \<open>-7\<close> and ``Sell''.
\<close>

theorem stale_upside_changes_metrics:
  "sameInputs zeroStock staleStock \<and>
   ExpectedValue (CalculateMetrics zeroStock) = - 7 \<and>
   Assessment (CalculateMetrics zeroStock) = ''Sell'' \<and>
   ExpectedValue (CalculateMetrics staleStock) = 51 / 2 \<and>
   Assessment (CalculateMetrics staleStock) = ''Add'' \<and>
   \<not> sameDerived (CalculateMetrics zeroStock) (CalculateMetrics staleStock)"
  by (simp add: sameInputs_def sameDerived_def CalculateMetrics_def staleStock_def zeroStock_def
      step_defs Let_def)

section \<open>Standalone zone queries: validation\<close>

lemma buy_zone_error:
  "snd (CalculateBuyZoneResult t fv p d cp) = validationError fv p d"
  by (simp add: CalculateBuyZoneResult_def validationError_def Let_def split: prod.splits)

lemma sell_zone_error:
  "snd (CalculateSellZoneResult t fv p d cp) = validationError fv p d"
  by (simp add: CalculateSellZoneResult_def validationError_def Let_def split: prod.splits)

text \<open>
  Claim C8. \<^verbatim>\<open>CalculateBuyZoneResult\<close> and \<^verbatim>\<open>CalculateSellZoneResult\<close> return an error
  exactly when the probability is outside [0, 1], or the downside risk is not negative, or
  the fair value is not positive; the error is the message of the first check that fails.
  Every other argument tuple gives a result with a nil error.
\<close>

theorem zone_query_validation:
  "(snd (CalculateBuyZoneResult t fv p d cp) \<noteq> None \<longleftrightarrow> p < 0 \<or> 1 < p \<or> 0 \<le> d \<or> fv \<le> 0) \<and>
   (snd (CalculateSellZoneResult t fv p d cp) \<noteq> None \<longleftrightarrow> p < 0 \<or> 1 < p \<or> 0 \<le> d \<or> fv \<le> 0) \<and>
   snd (CalculateBuyZoneResult t fv p d cp) = validationError fv p d \<and>
   snd (CalculateSellZoneResult t fv p d cp) = validationError fv p d"
  by (auto simp add: buy_zone_error sell_zone_error validationError_def)

theorem zone_query_validation_witness:
  "snd (CalculateBuyZoneResult ''X'' 100 (6 / 5) (- 20) 90)
     = Some ''probability_positive must be between 0 and 1'' \<and>
   snd (CalculateBuyZoneResult ''X'' 100 (13 / 20) 20 90) = Some ''downside_risk must be negative'' \<and>
   snd (CalculateSellZoneResult ''X'' 0 (13 / 20) (- 20) 90) = Some ''fair_value must be positive'' \<and>
   snd (CalculateBuyZoneResult ''UNH'' 380 (13 / 20) (- 15) 284) = None \<and>
   snd (CalculateSellZoneResult ''UNH'' 380 (13 / 20) (- 15) 350) = None"
  using zone_query_validation [of "''X''" 100 "6 / 5" "- 20" 90] zone_query_validation [of "''X''" 100 "13 / 20" 20 90]
    zone_query_validation [of "''X''" 0 "13 / 20" "- 20" 90] zone_query_validation [of "''UNH''" 380 "13 / 20" "- 15" 284]
    zone_query_validation [of "''UNH''" 380 "13 / 20" "- 15" 350]
  by (simp add: validationError_def)

section \<open>Portfolio aggregation: the two passes\<close>

lemma firstPass_slots:
  "fst (firstPass fxRates stocks totalValue) = map (slotValue fxRates) stocks"
  by (induction stocks arbitrary: totalValue)
    (simp_all add: slotValue_def included_def positionValue_def Let_def split_beta)

lemma firstPass_total:
  "snd (firstPass fxRates stocks totalValue) =
    totalValue + sum_list (map (positionValue fxRates) (filter (included fxRates) stocks))"
  by (induction stocks arbitrary: totalValue)
    (simp_all add: included_def positionValue_def Let_def split_beta)

lemma slot_sum:
  "sum_list (map (slotValue fxRates) stocks) =
    sum_list (map (positionValue fxRates) (filter (included fxRates) stocks))"
  by (induction stocks) (simp_all add: slotValue_def)

lemma zip_slots: "zip stocks (map f stocks) = map (\<lambda>stock. (stock, f stock)) stocks"
  by (induction stocks) simp_all

lemma CalculatePortfolioMetrics_unfold:
  "CalculatePortfolioMetrics stocks fxRates =
    summarise (sum_list (map (slotValue fxRates) stocks))
      (secondPass (sum_list (map (slotValue fxRates) stocks))
         (map (\<lambda>stock. (stock, slotValue fxRates stock)) stocks) noAggregates)"
proof -
  obtain vs tv where fp: "firstPass fxRates stocks 0 = (vs, tv)" by force
  have "vs = map (slotValue fxRates) stocks"
    using firstPass_slots [of fxRates stocks 0] fp by simp
  moreover have "tv = sum_list (map (slotValue fxRates) stocks)"
    using firstPass_total [of fxRates stocks 0] fp by (simp add: slot_sum)
  ultimately show ?thesis
    by (simp add: CalculatePortfolioMetrics_def fp zip_slots)
qed

lemma secondPass_skips:
  "secondPass totalValue (map (\<lambda>stock. (stock, slotValue fxRates stock)) stocks) acc =
    secondPass totalValue
      (map (\<lambda>stock. (stock, slotValue fxRates stock)) (filter (included fxRates) stocks)) acc"
  by (induction stocks arbitrary: acc) (auto simp add: slotValue_def included_def Let_def)

lemma filtered_slots:
  "sum_list (map (slotValue fxRates) (filter (included fxRates) stocks)) =
    sum_list (map (slotValue fxRates) stocks)"
  by (induction stocks) (simp_all add: slotValue_def)

lemma CalculatePortfolioMetrics_filter:
  "CalculatePortfolioMetrics stocks fxRates =
    CalculatePortfolioMetrics (filter (included fxRates) stocks) fxRates"
  by (simp add: CalculatePortfolioMetrics_unfold filtered_slots secondPass_skips [symmetric])

lemma TotalValue_summarise: "TotalValue (summarise totalValue acc) = totalValue"
  by (simp add: summarise_def Let_def)

section \<open>Portfolio aggregation: the claims\<close>

lemma firstPass_internal_total:
  "snd (firstPass_internal fxRates stocks totalValue) =
    totalValue + sum_list (map (\<lambda>stock. real_of_int (SharesOwned stock) * CurrentPrice stock
        / (if rateOf fxRates (Currency stock) = 0 then 1 else rateOf fxRates (Currency stock)))
      (filter (\<lambda>stock. 0 < SharesOwned stock) stocks))"
  by (induction stocks arbitrary: totalValue) (simp_all add: Let_def split_beta)

lemma TotalValue_internal:
  "TotalValue (CalculatePortfolioMetrics_internal stocks fxRates) =
    snd (firstPass_internal fxRates stocks 0)"
  by (simp add: CalculatePortfolioMetrics_internal_def TotalValue_summarise split_beta)

lemma TotalValue_pkg:
  "TotalValue (CalculatePortfolioMetrics stocks fxRates) =
    sum_list (map (positionValue fxRates) (filter (included fxRates) stocks))"
  by (simp add: CalculatePortfolioMetrics_unfold TotalValue_summarise slot_sum)

text \<open>
  Claim C6, amended. \<^verbatim>\<open>CalculatePortfolioMetrics\<close> of \<^verbatim>\<open>pkg/services\<close> computes the total
  value as the sum of \<open>shares \<times> price / rate\<close> over exactly the positions with shares whose
  currency has a positive rate, and a position without shares, or whose rate is missing,
  zero or negative, changes nothing in the summary: the result is the one of the list
  without it. \<^verbatim>\<open>CalculatePortfolioMetrics\<close> of \<^verbatim>\<open>internal/services\<close> takes a missing or zero
  rate as 1.0 instead, so that on a table without negative rates its total value is the sum
  of \<open>shares \<times> price / rate\<close> over all positions with shares, with 1 for a rate of zero.
\<close>

theorem portfolio_total_value:
  "TotalValue (CalculatePortfolioMetrics stocks fxRates) =
     sum_list (map (\<lambda>stock. real_of_int (SharesOwned stock) * CurrentPrice stock
                      / rateOf fxRates (Currency stock))
       (filter (\<lambda>stock. 0 < SharesOwned stock \<and> 0 < rateOf fxRates (Currency stock)) stocks)) \<and>
   (SharesOwned x \<le> 0 \<or> rateOf fxRates (Currency x) \<le> 0 \<longrightarrow>
      CalculatePortfolioMetrics (before @ x # after) fxRates =
      CalculatePortfolioMetrics (before @ after) fxRates) \<and>
   ((\<forall>stock \<in> set stocks. 0 \<le> rateOf fxRates (Currency stock)) \<longrightarrow>
      TotalValue (CalculatePortfolioMetrics_internal stocks fxRates) =
        sum_list (map (\<lambda>stock. real_of_int (SharesOwned stock) * CurrentPrice stock
                        / (if rateOf fxRates (Currency stock) = 0 then 1
                           else rateOf fxRates (Currency stock)))
          (filter (\<lambda>stock. 0 < SharesOwned stock) stocks)))"
proof (intro conjI impI)
  have inc: "included fxRates = (\<lambda>stock. 0 < SharesOwned stock \<and> 0 < rateOf fxRates (Currency stock))"
    by (rule ext) (simp add: included_def)
  have val: "positionValue fxRates = (\<lambda>stock. real_of_int (SharesOwned stock) * CurrentPrice stock
      / rateOf fxRates (Currency stock))"
    by (rule ext) (simp add: positionValue_def)
  show "TotalValue (CalculatePortfolioMetrics stocks fxRates) =
     sum_list (map (\<lambda>stock. real_of_int (SharesOwned stock) * CurrentPrice stock
                      / rateOf fxRates (Currency stock))
       (filter (\<lambda>stock. 0 < SharesOwned stock \<and> 0 < rateOf fxRates (Currency stock)) stocks))"
    using TotalValue_pkg [of stocks fxRates] by (simp only: inc val)
  show "TotalValue (CalculatePortfolioMetrics_internal stocks fxRates) =
        sum_list (map (\<lambda>stock. real_of_int (SharesOwned stock) * CurrentPrice stock
                        / (if rateOf fxRates (Currency stock) = 0 then 1
                           else rateOf fxRates (Currency stock)))
          (filter (\<lambda>stock. 0 < SharesOwned stock) stocks))"
    by (simp add: TotalValue_internal firstPass_internal_total)
  assume "SharesOwned x \<le> 0 \<or> rateOf fxRates (Currency x) \<le> 0"
  then have "\<not> included fxRates x" by (auto simp add: included_def)
  then have "filter (included fxRates) (before @ x # after) =
      filter (included fxRates) (before @ after)" by simp
  then show "CalculatePortfolioMetrics (before @ x # after) fxRates =
      CalculatePortfolioMetrics (before @ after) fxRates"
    using CalculatePortfolioMetrics_filter [of "before @ x # after" fxRates]
      CalculatePortfolioMetrics_filter [of "before @ after" fxRates] by simp
qed

lemma testRates_values:
  "rateOf testRates ''USD'' = 1" "rateOf testRates ''EUR'' = 2" "rateOf testRates ''XXX'' = 0"
  by (simp_all add: rateOf_def testRates_def)

lemma test_portfolio_fields:
  "SharesOwned techStock = 10" "CurrentPrice techStock = 100" "Currency techStock = ''USD''"
  "SharesOwned healthStock = 5" "CurrentPrice healthStock = 200" "Currency healthStock = ''EUR''"
  "SharesOwned ignoredStock = 0" "Currency ignoredStock = ''USD''"
  by (simp_all add: techStock_def healthStock_def ignoredStock_def zeroStock_def)

lemma test_portfolio_metrics:
  "CalculatePortfolioMetrics [techStock, healthStock, ignoredStock] testRates =
    \<lparr>TotalValue = 1500, OverallEV = 11 / 3, WeightedVolatility = 40 / 3, SharpeRatio = - 1 / 40,
     KellyUtilization = 100, SectorWeights = [(''Tech'', 200 / 3), (''Health'', 100 / 3)]\<rparr>"
  by (simp add: CalculatePortfolioMetrics_def testRates_values techStock_def healthStock_def
      ignoredStock_def zeroStock_def summarise_def noAggregates_def riskFreeRatePercent_def Let_def)

theorem portfolio_total_value_witness:
  "SharesOwned ignoredStock \<le> 0 \<and>
   CalculatePortfolioMetrics ([techStock, healthStock] @ ignoredStock # []) testRates =
     CalculatePortfolioMetrics ([techStock, healthStock] @ []) testRates \<and>
   TotalValue (CalculatePortfolioMetrics [techStock, healthStock, ignoredStock] testRates) = 1500 \<and>
   0 \<le> rateOf testRates (Currency techStock) \<and>
   0 \<le> rateOf testRates (Currency healthStock) \<and>
   0 \<le> rateOf testRates (Currency ignoredStock) \<and>
   TotalValue (CalculatePortfolioMetrics_internal [techStock, healthStock, ignoredStock] testRates)
     = 1500"
proof -
  note c = portfolio_total_value [of "[techStock, healthStock, ignoredStock]" testRates ignoredStock
      "[techStock, healthStock]" "[]"]
  have excluded: "SharesOwned ignoredStock \<le> 0"
    by (simp add: test_portfolio_fields)
  have rated: "\<forall>stock \<in> set [techStock, healthStock, ignoredStock].
      0 \<le> rateOf testRates (Currency stock)"
    by (simp add: testRates_values test_portfolio_fields)
  have same: "CalculatePortfolioMetrics ([techStock, healthStock] @ ignoredStock # []) testRates =
      CalculatePortfolioMetrics ([techStock, healthStock] @ []) testRates"
    using c [THEN conjunct2, THEN conjunct1] excluded by blast
  have pkg: "TotalValue (CalculatePortfolioMetrics [techStock, healthStock, ignoredStock] testRates)
      = 1500"
    using c [THEN conjunct1] by (simp add: testRates_values test_portfolio_fields)
  have internal: "TotalValue
      (CalculatePortfolioMetrics_internal [techStock, healthStock, ignoredStock] testRates) = 1500"
    using c [THEN conjunct2, THEN conjunct2] rated
    by (simp add: testRates_values test_portfolio_fields)
  show ?thesis using excluded rated same pkg internal by simp
qed

text \<open>
  Claim C6 as written fails for the aggregator of \<^verbatim>\<open>internal/services\<close>, where a position
  whose currency has no rate is not skipped: one share
  at a price of 10 in a currency without a rate makes a total value of 10, where
  \<^verbatim>\<open>pkg/services\<close> gives 0.
\<close>

theorem internal_missing_rate_counterexample:
  "0 < SharesOwned unratedStock \<and>
   rateOf testRates (Currency unratedStock) \<le> 0 \<and>
   TotalValue (CalculatePortfolioMetrics_internal [unratedStock] testRates) = 10 \<and>
   TotalValue (CalculatePortfolioMetrics_internal [] testRates) = 0 \<and>
   TotalValue (CalculatePortfolioMetrics [unratedStock] testRates) = 0"
  by (simp add: CalculatePortfolioMetrics_internal_def CalculatePortfolioMetrics_def
      unratedStock_def zeroStock_def testRates_values summarise_def noAggregates_def Let_def)

lemma addWeight_sum:
  "sum_list (map snd (addWeight sector w weights)) = sum_list (map snd weights) + w"
  by (induction sector w weights rule: addWeight.induct) simp_all

lemma empty_portfolio: "CalculatePortfolioMetrics [] fxRates = noMetrics"
  by (simp add: CalculatePortfolioMetrics_def summarise_def noAggregates_def noMetrics_def)

section \<open>Every division has a positive divisor\<close>

lemma guardedDiv_pos: "0 < y \<Longrightarrow> guardedDiv x y = Some (x / y)"
  by (simp add: guardedDiv_def)

lemma upsideStep_checked: "upsideStep_checked stock = Some (upsideStep stock)"
  by (simp add: upsideStep_checked_def upsideStep_def guardedDiv_pos)

lemma floored_magnitude_pos:
  "0 < (if \<bar>d\<bar> < minDownsideMagnitude then minDownsideMagnitude else \<bar>d :: real\<bar>)"
proof (cases "\<bar>d\<bar> < minDownsideMagnitude")
  case True
  then show ?thesis by (simp add: minDownsideMagnitude_def)
next
  case False
  then have "1 / 10 \<le> \<bar>d\<bar>" by (simp add: minDownsideMagnitude_def)
  then have "0 < \<bar>d\<bar>" by linarith
  with False show ?thesis by simp
qed

lemma bRatioStep_checked: "bRatioStep_checked stock = Some (bRatioStep stock)"
  unfolding bRatioStep_checked_def bRatioStep_def Let_def
  by (simp only: guardedDiv_pos [OF floored_magnitude_pos] bind.bind_lunit)

lemma kellyStep_checked: "kellyStep_checked stock = Some (kellyStep stock)"
proof (cases "0 < BRatio stock")
  case True
  then show ?thesis
    unfolding kellyStep_checked_def kellyStep_def Let_def
    by (simp only: guardedDiv_pos bind.bind_lunit if_True if_distrib [of Some])
next
  case False
  then show ?thesis by (simp add: kellyStep_checked_def kellyStep_def)
qed

lemma buyZoneStep_checked: "buyZoneStep_checked stock = Some (buyZoneStep stock)"
  by (simp add: buyZoneStep_checked_def buyZoneStep_def guardedDiv_def Let_def
      requiredUpside_def)

lemma solvePriceForEVThreshold_checked:
  "solvePriceForEVThreshold_checked fv p d thr = Some (solvePriceForEVThreshold fv p d thr)"
  by (simp add: solvePriceForEVThreshold_checked_def solvePriceForEVThreshold_def guardedDiv_def
      Let_def)

lemma sellZoneStep_checked: "sellZoneStep_checked stock = Some (sellZoneStep stock)"
  by (simp add: sellZoneStep_checked_def sellZoneStep_def solvePriceForEVThreshold_checked
      split_beta)

lemma CalculateMetrics_checked: "CalculateMetrics_checked stock = Some (CalculateMetrics stock)"
  by (simp add: CalculateMetrics_checked_def CalculateMetrics_def upsideStep_checked
      bRatioStep_checked kellyStep_checked buyZoneStep_checked sellZoneStep_checked)

lemma firstPass_checked:
  "firstPass_checked fxRates stocks totalValue = Some (firstPass fxRates stocks totalValue)"
  by (induction stocks arbitrary: totalValue) (simp_all add: guardedDiv_def Let_def split_beta)

lemma secondPass_checked:
  "secondPass_checked totalValue slots acc = Some (secondPass totalValue slots acc)"
  by (induction totalValue slots acc rule: secondPass.induct)
    (simp_all add: guardedDiv_def Let_def)

lemma summarise_checked: "summarise_checked totalValue acc = Some (summarise totalValue acc)"
  by (simp add: summarise_checked_def summarise_def guardedDiv_def Let_def)

lemma CalculatePortfolioMetrics_checked:
  "CalculatePortfolioMetrics_checked stocks fxRates =
    Some (CalculatePortfolioMetrics stocks fxRates)"
  by (simp add: CalculatePortfolioMetrics_checked_def CalculatePortfolioMetrics_def
      firstPass_checked secondPass_checked summarise_checked split_beta)

text \<open>
  Claim C9. \<^verbatim>\<open>CalculateMetrics\<close> and \<^verbatim>\<open>CalculatePortfolioMetrics\<close> return a result for every
  input, and every division in them is made with a positive divisor: the reading in which
  any other division fails never fails, and returns what the functions return.
\<close>

theorem calculations_never_fail:
  "CalculateMetrics_checked stock = Some (CalculateMetrics stock) \<and>
   CalculatePortfolioMetrics_checked stocks fxRates =
     Some (CalculatePortfolioMetrics stocks fxRates)"
  by (simp add: CalculateMetrics_checked CalculatePortfolioMetrics_checked)

theorem calculations_never_fail_witness:
  "CalculateMetrics_checked zeroStock = Some (CalculateMetrics zeroStock) \<and>
   CalculatePortfolioMetrics_checked [] noRates = Some noMetrics \<and>
   CalculatePortfolioMetrics_checked [unratedStock, negativePriceStock, ignoredStock] noRates
     = Some noMetrics"
proof -
  have "CalculatePortfolioMetrics [unratedStock, negativePriceStock, ignoredStock] noRates
      = noMetrics"
    by (simp add: CalculatePortfolioMetrics_def unratedStock_def negativePriceStock_def
        ignoredStock_def zeroStock_def rateOf_def noRates_def summarise_def noAggregates_def
        noMetrics_def)
  then show ?thesis
    using calculations_never_fail [of zeroStock "[]" noRates]
      calculations_never_fail [of zeroStock "[unratedStock, negativePriceStock, ignoredStock]"
        noRates]
    by (simp add: empty_portfolio)
qed

section \<open>The \<^verbatim>\<open>float64\<close> reading: which results are finite\<close>

lemma overflowLimit_pos: "2 ^ 1023 < overflowLimit"
proof -
  have "(2::real) ^ 970 < 2 ^ 1023" by (rule power_strict_increasing) simp_all
  moreover have "(2::real) ^ 1024 = 2 * 2 ^ 1023" by simp
  ultimately show ?thesis unfolding overflowLimit_def by linarith
qed

lemma overflowLimit_below: "overflowLimit < 2 ^ 1024"
  using zero_less_power [of "2::real" 970] unfolding overflowLimit_def by linarith

lemma clip_Fin: "\<bar>r\<bar> \<le> 2 ^ 1023 \<Longrightarrow> clip r = Fin r"
  using overflowLimit_pos unfolding clip_def abs_le_iff by auto

lemma clip_small: "\<bar>r\<bar> \<le> 1000000 \<Longrightarrow> clip r = Fin r"
proof -
  assume a: "\<bar>r\<bar> \<le> 1000000"
  have "(1000000::real) \<le> 2 ^ 20" by simp
  also have "(2::real) ^ 20 \<le> 2 ^ 1023" by (rule power_increasing) simp_all
  finally show ?thesis using a by (intro clip_Fin) linarith
qed

lemma clip_PInf: "2 ^ 1024 \<le> r \<Longrightarrow> clip r = PInf"
  using overflowLimit_below unfolding clip_def by auto


lemmas float_small = clip_small signedInf_def minus_float64_def

lemma hugeValue_range: "0 < hugeValue" "hugeValue \<le> 2 ^ 1000"
proof -
  show "0 < hugeValue" by (simp add: hugeValue_def)
  have "(10::real) ^ 300 = (10 ^ 3) ^ 100" by (simp only: power_mult [symmetric]) simp
  also have "\<dots> \<le> (2 ^ 10) ^ 100" by (rule power_mono) simp_all
  also have "\<dots> = 2 ^ 1000" by (simp only: power_mult [symmetric]) simp
  finally show "hugeValue \<le> 2 ^ 1000" by (simp add: hugeValue_def)
qed

lemma tinyPrice_pos: "0 < tinyPrice"
  by (simp add: tinyPrice_def)

lemma upside_overflows:
  "((Fin hugeValue - Fin tinyPrice) / Fin tinyPrice) * Fin 100 = PInf"
proof -
  have small: "\<bar>hugeValue + - tinyPrice\<bar> \<le> 2 ^ 1023"
  proof -
    have "(2::real) ^ 1000 \<le> 2 ^ 1023" by (rule power_increasing) simp_all
    then show ?thesis
      using hugeValue_range tinyPrice_pos by (simp add: tinyPrice_def hugeValue_def abs_le_iff)
  qed
  have big: "2 ^ 1024 \<le> (hugeValue + - tinyPrice) / tinyPrice"
    by (simp add: tinyPrice_def hugeValue_def)
  have "Fin hugeValue - Fin tinyPrice = Fin (hugeValue + - tinyPrice)"
    using small by (simp add: minus_float64_def clip_Fin)
  moreover have "Fin (hugeValue + - tinyPrice) / Fin tinyPrice = PInf"
    using tinyPrice_pos big by (simp add: clip_PInf)
  ultimately show ?thesis by (simp add: signedInf_def)
qed



lemma hugePrice_facts:
  "0 < hugePrice" "clip hugePrice = Fin hugePrice" "clip (2 * hugePrice) = PInf"
proof -
  show "0 < hugePrice" by (simp add: hugePrice_def)
  show "clip hugePrice = Fin hugePrice" by (rule clip_Fin) (simp add: hugePrice_def)
  have "(2::real) ^ 1024 = 2 * 2 ^ 1023" by simp
  then show "clip (2 * hugePrice) = PInf" by (intro clip_PInf) (simp add: hugePrice_def)
qed

section \<open>The \<^verbatim>\<open>float64\<close> reading: how each step writes the record\<close>

text \<open>As in the first reading, a step leaves every field alone but the ones it assigns.\<close>

lemma calibrateStep_f_frame [simp]:
  "Ticker_f (calibrateStep_f stock) = Ticker_f stock"
  "Sector_f (calibrateStep_f stock) = Sector_f stock"
  "Currency_f (calibrateStep_f stock) = Currency_f stock"
  "CurrentPrice_f (calibrateStep_f stock) = CurrentPrice_f stock"
  "FairValue_f (calibrateStep_f stock) = FairValue_f stock"
  "Beta_f (calibrateStep_f stock) = Beta_f stock"
  "ProbabilityPositive_f (calibrateStep_f stock) = ProbabilityPositive_f stock"
  "SharesOwned_f (calibrateStep_f stock) = SharesOwned_f stock"
  "AvgPriceLocal_f (calibrateStep_f stock) = AvgPriceLocal_f stock"
  "Volatility_f (calibrateStep_f stock) = Volatility_f stock"
  "UpsidePotential_f (calibrateStep_f stock) = UpsidePotential_f stock"
  "BRatio_f (calibrateStep_f stock) = BRatio_f stock"
  "ExpectedValue_f (calibrateStep_f stock) = ExpectedValue_f stock"
  "KellyFraction_f (calibrateStep_f stock) = KellyFraction_f stock"
  "HalfKellySuggested_f (calibrateStep_f stock) = HalfKellySuggested_f stock"
  "Assessment_f (calibrateStep_f stock) = Assessment_f stock"
  "BuyZoneMin_f (calibrateStep_f stock) = BuyZoneMin_f stock"
  "BuyZoneMax_f (calibrateStep_f stock) = BuyZoneMax_f stock"
  "SellZoneLowerBound_f (calibrateStep_f stock) = SellZoneLowerBound_f stock"
  "SellZoneUpperBound_f (calibrateStep_f stock) = SellZoneUpperBound_f stock"
  "SellZoneStatus_f (calibrateStep_f stock) = SellZoneStatus_f stock"
  by (simp_all add: calibrateStep_f_def)

lemma upsideStep_f_frame [simp]:
  "Ticker_f (upsideStep_f stock) = Ticker_f stock"
  "Sector_f (upsideStep_f stock) = Sector_f stock"
  "Currency_f (upsideStep_f stock) = Currency_f stock"
  "CurrentPrice_f (upsideStep_f stock) = CurrentPrice_f stock"
  "FairValue_f (upsideStep_f stock) = FairValue_f stock"
  "Beta_f (upsideStep_f stock) = Beta_f stock"
  "ProbabilityPositive_f (upsideStep_f stock) = ProbabilityPositive_f stock"
  "DownsideRisk_f (upsideStep_f stock) = DownsideRisk_f stock"
  "SharesOwned_f (upsideStep_f stock) = SharesOwned_f stock"
  "AvgPriceLocal_f (upsideStep_f stock) = AvgPriceLocal_f stock"
  "Volatility_f (upsideStep_f stock) = Volatility_f stock"
  "BRatio_f (upsideStep_f stock) = BRatio_f stock"
  "ExpectedValue_f (upsideStep_f stock) = ExpectedValue_f stock"
  "KellyFraction_f (upsideStep_f stock) = KellyFraction_f stock"
  "HalfKellySuggested_f (upsideStep_f stock) = HalfKellySuggested_f stock"
  "Assessment_f (upsideStep_f stock) = Assessment_f stock"
  "BuyZoneMin_f (upsideStep_f stock) = BuyZoneMin_f stock"
  "BuyZoneMax_f (upsideStep_f stock) = BuyZoneMax_f stock"
  "SellZoneLowerBound_f (upsideStep_f stock) = SellZoneLowerBound_f stock"
  "SellZoneUpperBound_f (upsideStep_f stock) = SellZoneUpperBound_f stock"
  "SellZoneStatus_f (upsideStep_f stock) = SellZoneStatus_f stock"
  by (simp_all add: upsideStep_f_def)

lemma probabilityStep_f_frame [simp]:
  "Ticker_f (probabilityStep_f stock) = Ticker_f stock"
  "Sector_f (probabilityStep_f stock) = Sector_f stock"
  "Currency_f (probabilityStep_f stock) = Currency_f stock"
  "CurrentPrice_f (probabilityStep_f stock) = CurrentPrice_f stock"
  "FairValue_f (probabilityStep_f stock) = FairValue_f stock"
  "Beta_f (probabilityStep_f stock) = Beta_f stock"
  "DownsideRisk_f (probabilityStep_f stock) = DownsideRisk_f stock"
  "SharesOwned_f (probabilityStep_f stock) = SharesOwned_f stock"
  "AvgPriceLocal_f (probabilityStep_f stock) = AvgPriceLocal_f stock"
  "Volatility_f (probabilityStep_f stock) = Volatility_f stock"
  "UpsidePotential_f (probabilityStep_f stock) = UpsidePotential_f stock"
  "BRatio_f (probabilityStep_f stock) = BRatio_f stock"
  "ExpectedValue_f (probabilityStep_f stock) = ExpectedValue_f stock"
  "KellyFraction_f (probabilityStep_f stock) = KellyFraction_f stock"
  "HalfKellySuggested_f (probabilityStep_f stock) = HalfKellySuggested_f stock"
  "Assessment_f (probabilityStep_f stock) = Assessment_f stock"
  "BuyZoneMin_f (probabilityStep_f stock) = BuyZoneMin_f stock"
  "BuyZoneMax_f (probabilityStep_f stock) = BuyZoneMax_f stock"
  "SellZoneLowerBound_f (probabilityStep_f stock) = SellZoneLowerBound_f stock"
  "SellZoneUpperBound_f (probabilityStep_f stock) = SellZoneUpperBound_f stock"
  "SellZoneStatus_f (probabilityStep_f stock) = SellZoneStatus_f stock"
  by (simp_all add: probabilityStep_f_def)

lemma bRatioStep_f_frame [simp]:
  "Ticker_f (bRatioStep_f stock) = Ticker_f stock"
  "Sector_f (bRatioStep_f stock) = Sector_f stock"
  "Currency_f (bRatioStep_f stock) = Currency_f stock"
  "CurrentPrice_f (bRatioStep_f stock) = CurrentPrice_f stock"
  "FairValue_f (bRatioStep_f stock) = FairValue_f stock"
  "Beta_f (bRatioStep_f stock) = Beta_f stock"
  "ProbabilityPositive_f (bRatioStep_f stock) = ProbabilityPositive_f stock"
  "DownsideRisk_f (bRatioStep_f stock) = DownsideRisk_f stock"
  "SharesOwned_f (bRatioStep_f stock) = SharesOwned_f stock"
  "AvgPriceLocal_f (bRatioStep_f stock) = AvgPriceLocal_f stock"
  "Volatility_f (bRatioStep_f stock) = Volatility_f stock"
  "UpsidePotential_f (bRatioStep_f stock) = UpsidePotential_f stock"
  "ExpectedValue_f (bRatioStep_f stock) = ExpectedValue_f stock"
  "KellyFraction_f (bRatioStep_f stock) = KellyFraction_f stock"
  "HalfKellySuggested_f (bRatioStep_f stock) = HalfKellySuggested_f stock"
  "Assessment_f (bRatioStep_f stock) = Assessment_f stock"
  "BuyZoneMin_f (bRatioStep_f stock) = BuyZoneMin_f stock"
  "BuyZoneMax_f (bRatioStep_f stock) = BuyZoneMax_f stock"
  "SellZoneLowerBound_f (bRatioStep_f stock) = SellZoneLowerBound_f stock"
  "SellZoneUpperBound_f (bRatioStep_f stock) = SellZoneUpperBound_f stock"
  "SellZoneStatus_f (bRatioStep_f stock) = SellZoneStatus_f stock"
  by (simp_all add: bRatioStep_f_def Let_def)

lemma expectedValueStep_f_frame [simp]:
  "Ticker_f (expectedValueStep_f stock) = Ticker_f stock"
  "Sector_f (expectedValueStep_f stock) = Sector_f stock"
  "Currency_f (expectedValueStep_f stock) = Currency_f stock"
  "CurrentPrice_f (expectedValueStep_f stock) = CurrentPrice_f stock"
  "FairValue_f (expectedValueStep_f stock) = FairValue_f stock"
  "Beta_f (expectedValueStep_f stock) = Beta_f stock"
  "ProbabilityPositive_f (expectedValueStep_f stock) = ProbabilityPositive_f stock"
  "DownsideRisk_f (expectedValueStep_f stock) = DownsideRisk_f stock"
  "SharesOwned_f (expectedValueStep_f stock) = SharesOwned_f stock"
  "AvgPriceLocal_f (expectedValueStep_f stock) = AvgPriceLocal_f stock"
  "Volatility_f (expectedValueStep_f stock) = Volatility_f stock"
  "UpsidePotential_f (expectedValueStep_f stock) = UpsidePotential_f stock"
  "BRatio_f (expectedValueStep_f stock) = BRatio_f stock"
  "KellyFraction_f (expectedValueStep_f stock) = KellyFraction_f stock"
  "HalfKellySuggested_f (expectedValueStep_f stock) = HalfKellySuggested_f stock"
  "Assessment_f (expectedValueStep_f stock) = Assessment_f stock"
  "BuyZoneMin_f (expectedValueStep_f stock) = BuyZoneMin_f stock"
  "BuyZoneMax_f (expectedValueStep_f stock) = BuyZoneMax_f stock"
  "SellZoneLowerBound_f (expectedValueStep_f stock) = SellZoneLowerBound_f stock"
  "SellZoneUpperBound_f (expectedValueStep_f stock) = SellZoneUpperBound_f stock"
  "SellZoneStatus_f (expectedValueStep_f stock) = SellZoneStatus_f stock"
  by (simp_all add: expectedValueStep_f_def)

lemma kellyStep_f_frame [simp]:
  "Ticker_f (kellyStep_f stock) = Ticker_f stock"
  "Sector_f (kellyStep_f stock) = Sector_f stock"
  "Currency_f (kellyStep_f stock) = Currency_f stock"
  "CurrentPrice_f (kellyStep_f stock) = CurrentPrice_f stock"
  "FairValue_f (kellyStep_f stock) = FairValue_f stock"
  "Beta_f (kellyStep_f stock) = Beta_f stock"
  "ProbabilityPositive_f (kellyStep_f stock) = ProbabilityPositive_f stock"
  "DownsideRisk_f (kellyStep_f stock) = DownsideRisk_f stock"
  "SharesOwned_f (kellyStep_f stock) = SharesOwned_f stock"
  "AvgPriceLocal_f (kellyStep_f stock) = AvgPriceLocal_f stock"
  "Volatility_f (kellyStep_f stock) = Volatility_f stock"
  "UpsidePotential_f (kellyStep_f stock) = UpsidePotential_f stock"
  "BRatio_f (kellyStep_f stock) = BRatio_f stock"
  "ExpectedValue_f (kellyStep_f stock) = ExpectedValue_f stock"
  "HalfKellySuggested_f (kellyStep_f stock) = HalfKellySuggested_f stock"
  "Assessment_f (kellyStep_f stock) = Assessment_f stock"
  "BuyZoneMin_f (kellyStep_f stock) = BuyZoneMin_f stock"
  "BuyZoneMax_f (kellyStep_f stock) = BuyZoneMax_f stock"
  "SellZoneLowerBound_f (kellyStep_f stock) = SellZoneLowerBound_f stock"
  "SellZoneUpperBound_f (kellyStep_f stock) = SellZoneUpperBound_f stock"
  "SellZoneStatus_f (kellyStep_f stock) = SellZoneStatus_f stock"
  by (simp_all add: kellyStep_f_def Let_def)

lemma halfKellyStep_f_frame [simp]:
  "Ticker_f (halfKellyStep_f stock) = Ticker_f stock"
  "Sector_f (halfKellyStep_f stock) = Sector_f stock"
  "Currency_f (halfKellyStep_f stock) = Currency_f stock"
  "CurrentPrice_f (halfKellyStep_f stock) = CurrentPrice_f stock"
  "FairValue_f (halfKellyStep_f stock) = FairValue_f stock"
  "Beta_f (halfKellyStep_f stock) = Beta_f stock"
  "ProbabilityPositive_f (halfKellyStep_f stock) = ProbabilityPositive_f stock"
  "DownsideRisk_f (halfKellyStep_f stock) = DownsideRisk_f stock"
  "SharesOwned_f (halfKellyStep_f stock) = SharesOwned_f stock"
  "AvgPriceLocal_f (halfKellyStep_f stock) = AvgPriceLocal_f stock"
  "Volatility_f (halfKellyStep_f stock) = Volatility_f stock"
  "UpsidePotential_f (halfKellyStep_f stock) = UpsidePotential_f stock"
  "BRatio_f (halfKellyStep_f stock) = BRatio_f stock"
  "ExpectedValue_f (halfKellyStep_f stock) = ExpectedValue_f stock"
  "KellyFraction_f (halfKellyStep_f stock) = KellyFraction_f stock"
  "Assessment_f (halfKellyStep_f stock) = Assessment_f stock"
  "BuyZoneMin_f (halfKellyStep_f stock) = BuyZoneMin_f stock"
  "BuyZoneMax_f (halfKellyStep_f stock) = BuyZoneMax_f stock"
  "SellZoneLowerBound_f (halfKellyStep_f stock) = SellZoneLowerBound_f stock"
  "SellZoneUpperBound_f (halfKellyStep_f stock) = SellZoneUpperBound_f stock"
  "SellZoneStatus_f (halfKellyStep_f stock) = SellZoneStatus_f stock"
  by (simp_all add: halfKellyStep_f_def Let_def)

lemma assessmentStep_f_frame [simp]:
  "Ticker_f (assessmentStep_f stock) = Ticker_f stock"
  "Sector_f (assessmentStep_f stock) = Sector_f stock"
  "Currency_f (assessmentStep_f stock) = Currency_f stock"
  "CurrentPrice_f (assessmentStep_f stock) = CurrentPrice_f stock"
  "FairValue_f (assessmentStep_f stock) = FairValue_f stock"
  "Beta_f (assessmentStep_f stock) = Beta_f stock"
  "ProbabilityPositive_f (assessmentStep_f stock) = ProbabilityPositive_f stock"
  "DownsideRisk_f (assessmentStep_f stock) = DownsideRisk_f stock"
  "SharesOwned_f (assessmentStep_f stock) = SharesOwned_f stock"
  "AvgPriceLocal_f (assessmentStep_f stock) = AvgPriceLocal_f stock"
  "Volatility_f (assessmentStep_f stock) = Volatility_f stock"
  "UpsidePotential_f (assessmentStep_f stock) = UpsidePotential_f stock"
  "BRatio_f (assessmentStep_f stock) = BRatio_f stock"
  "ExpectedValue_f (assessmentStep_f stock) = ExpectedValue_f stock"
  "KellyFraction_f (assessmentStep_f stock) = KellyFraction_f stock"
  "HalfKellySuggested_f (assessmentStep_f stock) = HalfKellySuggested_f stock"
  "BuyZoneMin_f (assessmentStep_f stock) = BuyZoneMin_f stock"
  "BuyZoneMax_f (assessmentStep_f stock) = BuyZoneMax_f stock"
  "SellZoneLowerBound_f (assessmentStep_f stock) = SellZoneLowerBound_f stock"
  "SellZoneUpperBound_f (assessmentStep_f stock) = SellZoneUpperBound_f stock"
  "SellZoneStatus_f (assessmentStep_f stock) = SellZoneStatus_f stock"
  by (simp_all add: assessmentStep_f_def)

lemma buyZoneStep_f_frame [simp]:
  "Ticker_f (buyZoneStep_f stock) = Ticker_f stock"
  "Sector_f (buyZoneStep_f stock) = Sector_f stock"
  "Currency_f (buyZoneStep_f stock) = Currency_f stock"
  "CurrentPrice_f (buyZoneStep_f stock) = CurrentPrice_f stock"
  "FairValue_f (buyZoneStep_f stock) = FairValue_f stock"
  "Beta_f (buyZoneStep_f stock) = Beta_f stock"
  "ProbabilityPositive_f (buyZoneStep_f stock) = ProbabilityPositive_f stock"
  "DownsideRisk_f (buyZoneStep_f stock) = DownsideRisk_f stock"
  "SharesOwned_f (buyZoneStep_f stock) = SharesOwned_f stock"
  "AvgPriceLocal_f (buyZoneStep_f stock) = AvgPriceLocal_f stock"
  "Volatility_f (buyZoneStep_f stock) = Volatility_f stock"
  "UpsidePotential_f (buyZoneStep_f stock) = UpsidePotential_f stock"
  "BRatio_f (buyZoneStep_f stock) = BRatio_f stock"
  "ExpectedValue_f (buyZoneStep_f stock) = ExpectedValue_f stock"
  "KellyFraction_f (buyZoneStep_f stock) = KellyFraction_f stock"
  "HalfKellySuggested_f (buyZoneStep_f stock) = HalfKellySuggested_f stock"
  "Assessment_f (buyZoneStep_f stock) = Assessment_f stock"
  "SellZoneLowerBound_f (buyZoneStep_f stock) = SellZoneLowerBound_f stock"
  "SellZoneUpperBound_f (buyZoneStep_f stock) = SellZoneUpperBound_f stock"
  "SellZoneStatus_f (buyZoneStep_f stock) = SellZoneStatus_f stock"
  by (simp_all add: buyZoneStep_f_def Let_def)

lemma sellZoneStep_f_frame [simp]:
  "Ticker_f (sellZoneStep_f stock) = Ticker_f stock"
  "Sector_f (sellZoneStep_f stock) = Sector_f stock"
  "Currency_f (sellZoneStep_f stock) = Currency_f stock"
  "CurrentPrice_f (sellZoneStep_f stock) = CurrentPrice_f stock"
  "FairValue_f (sellZoneStep_f stock) = FairValue_f stock"
  "Beta_f (sellZoneStep_f stock) = Beta_f stock"
  "ProbabilityPositive_f (sellZoneStep_f stock) = ProbabilityPositive_f stock"
  "DownsideRisk_f (sellZoneStep_f stock) = DownsideRisk_f stock"
  "SharesOwned_f (sellZoneStep_f stock) = SharesOwned_f stock"
  "AvgPriceLocal_f (sellZoneStep_f stock) = AvgPriceLocal_f stock"
  "Volatility_f (sellZoneStep_f stock) = Volatility_f stock"
  "UpsidePotential_f (sellZoneStep_f stock) = UpsidePotential_f stock"
  "BRatio_f (sellZoneStep_f stock) = BRatio_f stock"
  "ExpectedValue_f (sellZoneStep_f stock) = ExpectedValue_f stock"
  "KellyFraction_f (sellZoneStep_f stock) = KellyFraction_f stock"
  "HalfKellySuggested_f (sellZoneStep_f stock) = HalfKellySuggested_f stock"
  "Assessment_f (sellZoneStep_f stock) = Assessment_f stock"
  "BuyZoneMin_f (sellZoneStep_f stock) = BuyZoneMin_f stock"
  "BuyZoneMax_f (sellZoneStep_f stock) = BuyZoneMax_f stock"
  by (simp_all add: sellZoneStep_f_def Let_def split_beta)


section \<open>The \<^verbatim>\<open>float64\<close> reading: the Kelly fraction on overflow\<close>

lemma overflowStock_upside:
  "upsideStep_f (calibrateStep_f overflowStock) = overflowStock\<lparr>UpsidePotential_f := PInf\<rparr>"
  using tinyPrice_pos hugeValue_range(1)
  by (simp add: upsideStep_f_def calibrateStep_f_def overflowStock_def zeroStock_f_def
      upside_overflows)

lemma overflowStock_kelly:
  "kellyStep_f (expectedValueStep_f (bRatioStep_f (probabilityStep_f
     (overflowStock\<lparr>UpsidePotential_f := PInf\<rparr>)))) =
   overflowStock\<lparr>UpsidePotential_f := PInf, BRatio_f := PInf, ExpectedValue_f := PInf,
     KellyFraction_f := NaN\<rparr>"
  by (simp add: kellyStep_f_def expectedValueStep_f_def bRatioStep_f_def probabilityStep_f_def
      overflowStock_def zeroStock_f_def minDownsideMagnitude_f_def float_small Let_def)

text \<open>
  Claim C5. After every call the Kelly fraction is \<open>((b p) - (1 - p)) / b \<times> 100\<close> clamped
  below at 0 when \<open>b > 0\<close> and 0 otherwise, so never negative, and the half-Kelly weight is the
  smaller of half of it and 15, so at most 15. The code does not meet this when the upside
  overflows. For a current price of \<open>1e-10\<close> and a fair value of \<open>1e300\<close> the upside and the
  b-ratio are \<open>+Inf\<close>, the Kelly formula is \<open>Inf / Inf\<close>, which is NaN, and NaN passes both the
  clamp \<^verbatim>\<open>KellyFraction < 0\<close> and the cap \<^verbatim>\<open>HalfKellySuggested > 15\<close>: the Kelly fraction is
  not at least 0 and the half-Kelly weight is not at most 15.
\<close>

theorem kelly_not_clamped_at_overflow:
  "UpsidePotential_f (CalculateMetrics_f overflowStock) = PInf \<and>
   BRatio_f (CalculateMetrics_f overflowStock) = PInf \<and>
   KellyFraction_f (CalculateMetrics_f overflowStock) = NaN \<and>
   HalfKellySuggested_f (CalculateMetrics_f overflowStock) = NaN \<and>
   \<not> Fin 0 \<le> KellyFraction_f (CalculateMetrics_f overflowStock) \<and>
   \<not> HalfKellySuggested_f (CalculateMetrics_f overflowStock) \<le> Fin 15"
  by (simp add: CalculateMetrics_f_def overflowStock_upside overflowStock_kelly
      halfKellyStep_f_def Let_def)

section \<open>The \<^verbatim>\<open>float64\<close> reading: the sell zone\<close>














section \<open>The \<^verbatim>\<open>float64\<close> reading: portfolio aggregation\<close>

lemma member_le_sum:
  fixes xs :: "real list"
  assumes "\<forall>y \<in> set xs. 0 \<le> y" and "x \<in> set xs"
  shows "x \<le> sum_list xs"
  using assms
proof (induction xs)
  case Nil
  then show ?case by simp
next
  case (Cons y ys)
  have rest: "0 \<le> sum_list ys" using Cons.prems(1) by (simp add: sum_list_nonneg)
  show ?case
  proof (cases "x = y")
    case True
    then show ?thesis using rest by simp
  next
    case False
    then have "x \<le> sum_list ys" using Cons by simp
    moreover have "0 \<le> y" using Cons.prems(1) by simp
    ultimately show ?thesis by simp
  qed
qed

lemma owned_value:
  assumes rate: "finitePositive (rateOf_f fxRates (Currency_f stock))"
    and price: "finiteNonNegative (CurrentPrice_f stock)"
    and owned: "0 < SharesOwned_f stock"
  shows "Fin (real_of_int (SharesOwned_f stock)) * CurrentPrice_f stock
           / rateOf_f fxRates (Currency_f stock) = PInf \<or>
         (Fin (real_of_int (SharesOwned_f stock)) * CurrentPrice_f stock
            / rateOf_f fxRates (Currency_f stock) = Fin (positionValue_f fxRates stock) \<and>
          0 \<le> positionValue_f fxRates stock)"
proof -
  obtain r where r: "rateOf_f fxRates (Currency_f stock) = Fin r" "0 < r"
    using rate by (cases "rateOf_f fxRates (Currency_f stock)") auto
  obtain c where c: "CurrentPrice_f stock = Fin c" "0 \<le> c"
    using price by (cases "CurrentPrice_f stock") auto
  let ?n = "real_of_int (SharesOwned_f stock)"
  have n: "0 < ?n" using owned by simp
  have nc: "0 \<le> ?n * c" using n c(2) by simp
  have v: "0 \<le> ?n * c / r" using nc r(2) by simp
  have pv: "positionValue_f fxRates stock = ?n * c / r"
    using owned by (simp add: positionValue_f_def r c)
  have limit: "0 < overflowLimit" using overflowLimit_pos by (simp add: less_trans [rotated])
  have clip_nonneg: "clip x = PInf \<or> clip x = Fin x" if "0 \<le> x" for x
    using that limit by (auto simp add: clip_def)
  have product: "Fin ?n * CurrentPrice_f stock = PInf \<or>
      Fin ?n * CurrentPrice_f stock = Fin (?n * c)"
    using clip_nonneg [OF nc] by (simp add: c(1))
  then show ?thesis
  proof
    assume "Fin ?n * CurrentPrice_f stock = PInf"
    then show ?thesis using r(2) by (simp add: r(1))
  next
    assume "Fin ?n * CurrentPrice_f stock = Fin (?n * c)"
    then have "Fin ?n * CurrentPrice_f stock / rateOf_f fxRates (Currency_f stock) =
        clip (?n * c / r)"
      using r(2) by (simp add: r(1))
    then show ?thesis using clip_nonneg [OF v] v by (auto simp add: pv)
  qed
qed

lemma firstPass_f_infinite:
  assumes "\<forall>stock \<in> set stocks. finitePositive (rateOf_f fxRates (Currency_f stock))"
    and "\<forall>stock \<in> set stocks. 0 < SharesOwned_f stock \<longrightarrow> finiteNonNegative (CurrentPrice_f stock)"
  shows "snd (firstPass_f fxRates stocks PInf) = PInf"
  using assms
proof (induction stocks)
  case Nil
  then show ?case by simp
next
  case (Cons stock stocks)
  note ih = Cons.IH [OF ballI ballI]
  have rest: "snd (firstPass_f fxRates stocks PInf) = PInf"
    using Cons by simp
  show ?case
  proof (cases "0 < SharesOwned_f stock")
    case False
    then show ?thesis using rest by (simp add: split_beta)
  next
    case True
    have rate: "finitePositive (rateOf_f fxRates (Currency_f stock))" using Cons.prems by simp
    then have pos: "\<not> rateOf_f fxRates (Currency_f stock) \<le> Fin 0"
      by (cases "rateOf_f fxRates (Currency_f stock)") auto
    have price: "finiteNonNegative (CurrentPrice_f stock)" using Cons.prems True by simp
    have "PInf + (Fin (real_of_int (SharesOwned_f stock)) * CurrentPrice_f stock
           / rateOf_f fxRates (Currency_f stock)) = PInf"
      using owned_value [OF rate price True] by auto
    then show ?thesis using True pos rest by (simp add: Let_def split_beta)
  qed
qed

lemma firstPass_f_finite:
  assumes "\<forall>stock \<in> set stocks. finitePositive (rateOf_f fxRates (Currency_f stock))"
    and "\<forall>stock \<in> set stocks. 0 < SharesOwned_f stock \<longrightarrow> finiteNonNegative (CurrentPrice_f stock)"
    and "0 \<le> a"
    and "snd (firstPass_f fxRates stocks (Fin a)) = Fin t"
  shows "fst (firstPass_f fxRates stocks (Fin a)) =
           map (\<lambda>stock. Fin (positionValue_f fxRates stock)) stocks \<and>
         t = a + sum_list (map (positionValue_f fxRates) stocks) \<and>
         (\<forall>stock \<in> set stocks. 0 \<le> positionValue_f fxRates stock)"
  using assms
proof (induction stocks arbitrary: a)
  case Nil
  then show ?case by simp
next
  case (Cons stock stocks)
  have rated: "\<forall>stock \<in> set stocks. finitePositive (rateOf_f fxRates (Currency_f stock))"
    and priced: "\<forall>stock \<in> set stocks. 0 < SharesOwned_f stock \<longrightarrow>
      finiteNonNegative (CurrentPrice_f stock)"
    using Cons.prems by simp_all
  show ?case
  proof (cases "0 < SharesOwned_f stock")
    case False
    then have zero: "positionValue_f fxRates stock = 0" by (simp add: positionValue_f_def)
    have "snd (firstPass_f fxRates stocks (Fin a)) = Fin t"
      using Cons.prems(4) False by (simp add: split_beta)
    from Cons.IH [OF rated priced Cons.prems(3) this] show ?thesis
      using False zero by (simp add: split_beta)
  next
    case True
    let ?v = "Fin (real_of_int (SharesOwned_f stock)) * CurrentPrice_f stock
           / rateOf_f fxRates (Currency_f stock)"
    have rate: "finitePositive (rateOf_f fxRates (Currency_f stock))" using Cons.prems by simp
    then have pos: "\<not> rateOf_f fxRates (Currency_f stock) \<le> Fin 0"
      by (cases "rateOf_f fxRates (Currency_f stock)") auto
    have price: "finiteNonNegative (CurrentPrice_f stock)" using Cons.prems True by simp
    have unfold: "firstPass_f fxRates (stock # stocks) (Fin a) =
        (?v # fst (firstPass_f fxRates stocks (Fin a + ?v)),
         snd (firstPass_f fxRates stocks (Fin a + ?v)))"
      using True pos by (simp add: Let_def split_beta)
    then have after: "snd (firstPass_f fxRates stocks (Fin a + ?v)) = Fin t"
      using Cons.prems(4) by simp
    have notinf: "Fin a + ?v \<noteq> PInf"
      using after firstPass_f_infinite [OF rated priced] by auto
    then have "?v \<noteq> PInf" by auto
    then have finite: "?v = Fin (positionValue_f fxRates stock)"
      and nonneg: "0 \<le> positionValue_f fxRates stock"
      using owned_value [OF rate price True] by auto
    have limit: "0 < overflowLimit" using overflowLimit_pos by (simp add: less_trans [rotated])
    have clipped: "clip (a + positionValue_f fxRates stock) = Fin (a + positionValue_f fxRates stock)"
      using notinf Cons.prems(3) nonneg limit
      by (auto simp add: finite clip_def split: if_splits)
    have sum: "Fin a + ?v = Fin (a + positionValue_f fxRates stock)"
      by (simp add: finite clipped)
    have "0 \<le> a + positionValue_f fxRates stock" using Cons.prems(3) nonneg by simp
    from Cons.IH [OF rated priced this after [unfolded sum]]
    have ih: "fst (firstPass_f fxRates stocks (Fin (a + positionValue_f fxRates stock))) =
          map (\<lambda>stock. Fin (positionValue_f fxRates stock)) stocks"
      "t = a + positionValue_f fxRates stock + sum_list (map (positionValue_f fxRates) stocks)"
      "\<forall>stock \<in> set stocks. 0 \<le> positionValue_f fxRates stock"
      by simp_all
    show ?thesis
      unfolding unfold sum using ih nonneg by (simp add: finite)
  qed
qed

lemma addWeight_nonneg:
  assumes "\<forall>entry \<in> set weights. 0 \<le> snd entry" and "0 \<le> w"
  shows "\<forall>entry \<in> set (addWeight sector w weights). 0 \<le> snd entry"
  using assms by (induction sector w weights rule: addWeight.induct) auto

lemma addWeight_f_finite:
  assumes "\<forall>entry \<in> set weights. \<bar>snd entry + w\<bar> \<le> 1000000" and "\<bar>w\<bar> \<le> 1000000"
  shows "addWeight_f sector (Fin w) (finWeights weights) = finWeights (addWeight sector w weights)"
  using assms
  by (induction sector w weights rule: addWeight.induct)
    (auto simp add: finWeights_def clip_small)

lemma sumWeights_finite:
  assumes "\<forall>entry \<in> set weights. 0 \<le> snd entry" and "0 \<le> a"
    and "a + sum_list (map snd weights) \<le> 1000000"
  shows "foldl (+) (Fin a) (map snd (finWeights weights)) =
    Fin (a + sum_list (map snd weights))"
  using assms
proof (induction weights arbitrary: a)
  case Nil
  then show ?case by (simp add: finWeights_def)
next
  case (Cons entry weights)
  obtain k x where entry: "entry = (k, x)" by (cases entry)
  have x: "0 \<le> x" using Cons.prems(1) entry by simp
  have rest: "0 \<le> sum_list (map snd weights)"
    using Cons.prems(1) by (intro sum_list_nonneg) auto
  have small: "\<bar>a + x\<bar> \<le> 1000000" using Cons.prems(2,3) x rest entry by simp
  have "foldl (+) (Fin (a + x)) (map snd (finWeights weights)) =
      Fin (a + x + sum_list (map snd weights))"
    using Cons.prems x entry by (intro Cons.IH) (simp_all add: add.assoc)
  then show ?case using small by (simp add: entry finWeights_def clip_small add.assoc)
qed

lemma secondPass_f_finite:
  assumes t: "0 < t"
    and inrange: "\<forall>stock \<in> set stocks. 0 \<le> v stock \<and> v stock \<le> t"
    and kelly: "kellyUtilization_f acc = Fin k"
    and sectors: "sectorWeights_f acc = finWeights weights"
    and nonneg: "\<forall>entry \<in> set weights. 0 \<le> snd entry"
    and total: "sum_list (map snd weights) = k"
    and bound: "k + sum_list (map v stocks) / t * 100 \<le> 1000"
  shows "\<exists>weights'.
      kellyUtilization_f (secondPass_f (Fin t) (map (\<lambda>stock. (stock, Fin (v stock))) stocks) acc)
        = Fin (k + sum_list (map (\<lambda>stock. if 0 < SharesOwned_f stock then v stock else 0) stocks)
                     / t * 100) \<and>
      sectorWeights_f (secondPass_f (Fin t) (map (\<lambda>stock. (stock, Fin (v stock))) stocks) acc)
        = finWeights weights' \<and>
      (\<forall>entry \<in> set weights'. 0 \<le> snd entry) \<and>
      sum_list (map snd weights') =
        k + sum_list (map (\<lambda>stock. if 0 < SharesOwned_f stock then v stock else 0) stocks)
              / t * 100"
  using inrange kelly sectors nonneg total bound
proof (induction stocks arbitrary: acc k weights)
  case Nil
  then show ?case by auto
next
  case (Cons stock stocks)
  have vs: "0 \<le> v stock" "v stock \<le> t" using Cons.prems(1) by simp_all
  have rest: "\<forall>stock \<in> set stocks. 0 \<le> v stock \<and> v stock \<le> t" using Cons.prems(1) by simp
  have restsum: "0 \<le> sum_list (map v stocks)"
    using rest by (intro sum_list_nonneg) auto
  have "0 \<le> sum_list (map snd weights)"
    using Cons.prems(4) by (intro sum_list_nonneg) auto
  then have k0: "0 \<le> k" using Cons.prems(5) by simp
  have split: "sum_list (map v (stock # stocks)) / t * 100 =
      v stock / t * 100 + sum_list (map v stocks) / t * 100"
    by (simp add: add_divide_distrib distrib_right)
  note b = Cons.prems(6) [unfolded split]
  have w0: "0 \<le> v stock / t * 100" using vs(1) t by simp
  have r0: "0 \<le> sum_list (map v stocks) / t * 100" using restsum t by simp
  show ?case
  proof (cases "0 < SharesOwned_f stock \<and> 0 < v stock")
    case False
    have skip: "secondPass_f (Fin t) (map (\<lambda>stock. (stock, Fin (v stock))) (stock # stocks)) acc
        = secondPass_f (Fin t) (map (\<lambda>stock. (stock, Fin (v stock))) stocks) acc"
      using False by auto
    have zero: "(if 0 < SharesOwned_f stock then v stock else 0) = 0"
      using False vs(1) by auto
    have "k + sum_list (map v stocks) / t * 100 \<le> 1000"
      using b w0 by linarith
    from Cons.IH [OF rest Cons.prems(2,3,4,5) this] show ?thesis
      unfolding skip by (simp add: zero)
  next
    case True
    let ?w = "v stock / t * 100"
    let ?acc = "acc\<lparr>weightedEV_f := weightedEV_f acc + ExpectedValue_f stock * (Fin (v stock) / Fin t),
        weightedVolatility_f := weightedVolatility_f acc + Volatility_f stock * (Fin (v stock) / Fin t),
        sectorWeights_f := addWeight_f (Sector_f stock) (Fin (v stock) / Fin t * Fin 100)
                             (sectorWeights_f acc),
        kellyUtilization_f := kellyUtilization_f acc + Fin (v stock) / Fin t * Fin 100\<rparr>"
    have step: "secondPass_f (Fin t) (map (\<lambda>stock. (stock, Fin (v stock))) (stock # stocks)) acc
        = secondPass_f (Fin t) (map (\<lambda>stock. (stock, Fin (v stock))) stocks) ?acc"
      using True t by (simp add: Let_def)
    have unit: "0 \<le> v stock / t" "v stock / t \<le> 1" using vs t by simp_all
    have ratio: "\<bar>v stock / t\<bar> \<le> 1000000" using unit by linarith
    have "?w \<le> 1 * 100" using unit(2) by (rule mult_right_mono) simp
    then have wsmall: "\<bar>?w\<bar> \<le> 1000000" using w0 by (simp add: abs_le_iff)
    have weight: "Fin (v stock) / Fin t * Fin 100 = Fin ?w"
      using t ratio wsmall by (simp add: clip_small)
    have kw: "k + ?w \<le> 1000" using b r0 by linarith
    have entries: "\<forall>entry \<in> set weights. \<bar>snd entry + ?w\<bar> \<le> 1000000"
    proof
      fix entry assume e: "entry \<in> set weights"
      then have "snd entry \<le> k"
        using member_le_sum [of "map snd weights" "snd entry"] Cons.prems(4,5) by auto
      moreover have "0 \<le> snd entry" using e Cons.prems(4) by simp
      ultimately show "\<bar>snd entry + ?w\<bar> \<le> 1000000" using kw w0 by simp
    qed
    have ksmall: "\<bar>k + ?w\<bar> \<le> 1000000" using kw k0 w0 by linarith
    have kelly': "kellyUtilization_f ?acc = Fin (k + ?w)"
      unfolding weight using clip_small [OF ksmall] by (simp add: Cons.prems(2))
    have sectors': "sectorWeights_f ?acc = finWeights (addWeight (Sector_f stock) ?w weights)"
      unfolding weight using addWeight_f_finite [OF entries wsmall]
      by (simp add: Cons.prems(3))
    have nonneg': "\<forall>entry \<in> set (addWeight (Sector_f stock) ?w weights). 0 \<le> snd entry"
      using Cons.prems(4) w0 by (rule addWeight_nonneg)
    have total': "sum_list (map snd (addWeight (Sector_f stock) ?w weights)) = k + ?w"
      by (simp add: addWeight_sum Cons.prems(5))
    have bound': "k + ?w + sum_list (map v stocks) / t * 100 \<le> 1000"
      using b by linarith
    have own: "(if 0 < SharesOwned_f stock then v stock else 0) = v stock" using True by simp
    from Cons.IH [OF rest kelly' sectors' nonneg' total' bound'] show ?thesis
      unfolding step by (simp add: own add_divide_distrib distrib_right add.assoc)
  qed
qed

lemma TotalValue_f_firstPass:
  "TotalValue_f (CalculatePortfolioMetrics_f stocks fxRates) =
    snd (firstPass_f fxRates stocks (Fin 0))"
  by (simp add: CalculatePortfolioMetrics_f_def summarise_f_def Let_def split_beta)

lemma summarise_f_fields:
  "KellyUtilization_f (summarise_f totalValue acc) = kellyUtilization_f acc"
  "SectorWeights_f (summarise_f totalValue acc) = sectorWeights_f acc"
  by (simp_all add: summarise_f_def Let_def)

lemma finite_total_weights:
  assumes rated: "\<forall>stock \<in> set stocks. finitePositive (rateOf_f fxRates (Currency_f stock))"
    and priced: "\<forall>stock \<in> set stocks. 0 < SharesOwned_f stock \<longrightarrow>
      finiteNonNegative (CurrentPrice_f stock)"
    and total: "finitePositive (TotalValue_f (CalculatePortfolioMetrics_f stocks fxRates))"
  shows "sumWeights (SectorWeights_f (CalculatePortfolioMetrics_f stocks fxRates)) = Fin 100"
    and "KellyUtilization_f (CalculatePortfolioMetrics_f stocks fxRates) = Fin 100"
proof -
  let ?v = "positionValue_f fxRates"
  obtain t where t: "snd (firstPass_f fxRates stocks (Fin 0)) = Fin t" "0 < t"
    using total unfolding TotalValue_f_firstPass
    by (cases "snd (firstPass_f fxRates stocks (Fin 0))") auto
  have first: "fst (firstPass_f fxRates stocks (Fin 0)) = map (\<lambda>stock. Fin (?v stock)) stocks"
    "t = sum_list (map ?v stocks)" "\<forall>stock \<in> set stocks. 0 \<le> ?v stock"
    using firstPass_f_finite [OF rated priced _ t(1)] by simp_all
  have inrange: "\<forall>stock \<in> set stocks. 0 \<le> ?v stock \<and> ?v stock \<le> t"
  proof
    fix stock assume s: "stock \<in> set stocks"
    then have "?v stock \<le> sum_list (map ?v stocks)"
      using member_le_sum [of "map ?v stocks" "?v stock"] first(3) by auto
    then show "0 \<le> ?v stock \<and> ?v stock \<le> t" using first(2,3) s by simp
  qed
  have owned: "(\<lambda>stock. if 0 < SharesOwned_f stock then ?v stock else 0) = ?v"
    by (rule ext) (simp add: positionValue_f_def)
  have unit: "sum_list (map ?v stocks) / t * 100 = 100" using first(2) t(2) by simp
  have result: "CalculatePortfolioMetrics_f stocks fxRates =
      summarise_f (Fin t) (secondPass_f (Fin t) (map (\<lambda>stock. (stock, Fin (?v stock))) stocks)
        noAggregates_f)"
    using t(1) first(1)
    by (simp add: CalculatePortfolioMetrics_f_def split_beta zip_slots)
  let ?res = "secondPass_f (Fin t) (map (\<lambda>stock. (stock, Fin (?v stock))) stocks)
      noAggregates_f"
  have "\<exists>weights'.
      kellyUtilization_f ?res = Fin (0 + sum_list (map ?v stocks) / t * 100) \<and>
      sectorWeights_f ?res = finWeights weights' \<and>
      (\<forall>entry \<in> set weights'. 0 \<le> snd entry) \<and>
      sum_list (map snd weights') = 0 + sum_list (map ?v stocks) / t * 100"
  proof (rule secondPass_f_finite [of t stocks ?v noAggregates_f 0 "[]", unfolded owned])
    show "0 < t" by (rule t(2))
    show "\<forall>stock \<in> set stocks. 0 \<le> ?v stock \<and> ?v stock \<le> t" by (rule inrange)
    show "kellyUtilization_f noAggregates_f = Fin 0" by (simp add: noAggregates_f_def)
    show "sectorWeights_f noAggregates_f = finWeights []"
      by (simp add: noAggregates_f_def finWeights_def)
    show "\<forall>entry \<in> set []. 0 \<le> snd (entry :: string \<times> real)" by simp
    show "sum_list (map snd ([] :: (string \<times> real) list)) = 0" by simp
    show "0 + sum_list (map ?v stocks) / t * 100 \<le> 1000" unfolding unit by simp
  qed
  then obtain weights where w:
    "kellyUtilization_f ?res = Fin (0 + 100)"
    "sectorWeights_f ?res = finWeights weights"
    "\<forall>entry \<in> set weights. 0 \<le> snd entry"
    "sum_list (map snd weights) = 0 + 100"
    unfolding unit by blast
  show "KellyUtilization_f (CalculatePortfolioMetrics_f stocks fxRates) = Fin 100"
    by (simp add: result summarise_f_fields w(1))
  have "foldl (+) (Fin 0) (map snd (finWeights weights)) = Fin (0 + sum_list (map snd weights))"
    using w(3) by (rule sumWeights_finite) (simp_all add: w(4))
  then show "sumWeights (SectorWeights_f (CalculatePortfolioMetrics_f stocks fxRates)) = Fin 100"
    by (simp add: sumWeights_def result summarise_f_fields w(2) w(4))
qed

lemma empty_portfolio_f: "CalculatePortfolioMetrics_f [] fxRates = noMetrics_f"
  by (simp add: CalculatePortfolioMetrics_f_def summarise_f_def noAggregates_f_def noMetrics_f_def)

lemma firstPass_f_no_shares:
  assumes "\<forall>stock \<in> set stocks. SharesOwned_f stock \<le> 0"
  shows "snd (firstPass_f fxRates stocks totalValue) = totalValue"
  using assms by (induction stocks) (simp_all add: split_beta)

lemma secondPass_f_no_shares:
  assumes "\<forall>entry \<in> set slots. SharesOwned_f (fst entry) \<le> 0"
  shows "secondPass_f totalValue slots acc = acc"
  using assms by (induction totalValue slots acc rule: secondPass_f.induct) simp_all

lemma no_shares_portfolio_f:
  assumes "\<forall>stock \<in> set stocks. SharesOwned_f stock \<le> 0"
  shows "CalculatePortfolioMetrics_f stocks fxRates = noMetrics_f"
proof -
  have "\<forall>entry \<in> set (zip stocks (fst (firstPass_f fxRates stocks (Fin 0)))).
      SharesOwned_f (fst entry) \<le> 0"
    using assms by (auto dest: set_zip_leftD)
  then show ?thesis
    using firstPass_f_no_shares [OF assms, of fxRates "Fin 0"]
    by (simp add: CalculatePortfolioMetrics_f_def split_beta secondPass_f_no_shares
        summarise_f_def noAggregates_f_def noMetrics_f_def)
qed

text \<open>
  Claim C7, amended. When every position's currency has a positive finite rate, no position
  with shares has a negative or non-finite price, and the computed total value is positive
  and finite, the values of the sector map sum to 100 within 0.1, and the sum equals the
  Kelly utilization. The empty list, and a list in which no position has shares, give the
  summary of zeros with an empty sector map.
\<close>

theorem sector_weights_sum:
  "((\<forall>stock \<in> set stocks. finitePositive (rateOf_f fxRates (Currency_f stock))) \<and>
    (\<forall>stock \<in> set stocks. 0 < SharesOwned_f stock \<longrightarrow>
       finiteNonNegative (CurrentPrice_f stock)) \<and>
    finitePositive (TotalValue_f (CalculatePortfolioMetrics_f stocks fxRates)) \<longrightarrow>
      withinTenthOf 100
        (sumWeights (SectorWeights_f (CalculatePortfolioMetrics_f stocks fxRates))) \<and>
      sumWeights (SectorWeights_f (CalculatePortfolioMetrics_f stocks fxRates)) =
        KellyUtilization_f (CalculatePortfolioMetrics_f stocks fxRates)) \<and>
   CalculatePortfolioMetrics_f [] fxRates = noMetrics_f \<and>
   ((\<forall>stock \<in> set stocks. SharesOwned_f stock \<le> 0) \<longrightarrow>
      CalculatePortfolioMetrics_f stocks fxRates = noMetrics_f)"
  using finite_total_weights [of stocks fxRates] empty_portfolio_f [of fxRates]
    no_shares_portfolio_f [of stocks fxRates]
  by simp

lemma testRates_f_values:
  "rateOf_f testRates_f ''USD'' = Fin 1" "rateOf_f testRates_f ''EUR'' = Fin 2"
  by (simp_all add: rateOf_f_def testRates_f_def)

lemma test_portfolio_f_fields:
  "SharesOwned_f techStock_f = 10" "CurrentPrice_f techStock_f = Fin 100"
  "Currency_f techStock_f = ''USD''"
  "SharesOwned_f healthStock_f = 5" "CurrentPrice_f healthStock_f = Fin 200"
  "Currency_f healthStock_f = ''EUR''"
  "SharesOwned_f ignoredStock_f = 0" "Currency_f ignoredStock_f = ''USD''"
  by (simp_all add: techStock_f_def healthStock_f_def ignoredStock_f_def zeroStock_f_def)

lemma test_portfolio_f_total:
  "TotalValue_f (CalculatePortfolioMetrics_f [techStock_f, healthStock_f, ignoredStock_f]
     testRates_f) = Fin 1500"
  by (simp add: TotalValue_f_firstPass testRates_f_values test_portfolio_f_fields clip_small
      Let_def)

theorem sector_weights_sum_witness:
  "finitePositive (rateOf_f testRates_f (Currency_f techStock_f)) \<and>
   finitePositive (rateOf_f testRates_f (Currency_f healthStock_f)) \<and>
   finitePositive (rateOf_f testRates_f (Currency_f ignoredStock_f)) \<and>
   finiteNonNegative (CurrentPrice_f techStock_f) \<and>
   finiteNonNegative (CurrentPrice_f healthStock_f) \<and>
   SharesOwned_f ignoredStock_f \<le> 0 \<and>
   TotalValue_f (CalculatePortfolioMetrics_f [techStock_f, healthStock_f, ignoredStock_f]
     testRates_f) = Fin 1500 \<and>
   withinTenthOf 100 (sumWeights (SectorWeights_f
     (CalculatePortfolioMetrics_f [techStock_f, healthStock_f, ignoredStock_f] testRates_f))) \<and>
   sumWeights (SectorWeights_f
     (CalculatePortfolioMetrics_f [techStock_f, healthStock_f, ignoredStock_f] testRates_f)) =
   KellyUtilization_f
     (CalculatePortfolioMetrics_f [techStock_f, healthStock_f, ignoredStock_f] testRates_f) \<and>
   CalculatePortfolioMetrics_f [ignoredStock_f] testRates_f = noMetrics_f"
proof -
  let ?stocks = "[techStock_f, healthStock_f, ignoredStock_f]"
  have rated: "\<forall>stock \<in> set ?stocks. finitePositive (rateOf_f testRates_f (Currency_f stock))"
    by (simp add: testRates_f_values test_portfolio_f_fields)
  have priced: "\<forall>stock \<in> set ?stocks. 0 < SharesOwned_f stock \<longrightarrow>
      finiteNonNegative (CurrentPrice_f stock)"
    by (simp add: test_portfolio_f_fields)
  have total: "finitePositive (TotalValue_f (CalculatePortfolioMetrics_f ?stocks testRates_f))"
    by (simp add: test_portfolio_f_total)
  have none: "\<forall>stock \<in> set [ignoredStock_f]. SharesOwned_f stock \<le> 0"
    by (simp add: test_portfolio_f_fields)
  note c = sector_weights_sum [of ?stocks testRates_f]
  note n = sector_weights_sum [of "[ignoredStock_f]" testRates_f]
  have sum: "withinTenthOf 100 (sumWeights (SectorWeights_f
        (CalculatePortfolioMetrics_f ?stocks testRates_f))) \<and>
      sumWeights (SectorWeights_f (CalculatePortfolioMetrics_f ?stocks testRates_f)) =
        KellyUtilization_f (CalculatePortfolioMetrics_f ?stocks testRates_f)"
    using c [THEN conjunct1] rated priced total by blast
  have zero: "CalculatePortfolioMetrics_f [ignoredStock_f] testRates_f = noMetrics_f"
    using n [THEN conjunct2, THEN conjunct2] none by blast
  have inputs: "finitePositive (rateOf_f testRates_f (Currency_f techStock_f)) \<and>
      finitePositive (rateOf_f testRates_f (Currency_f healthStock_f)) \<and>
      finitePositive (rateOf_f testRates_f (Currency_f ignoredStock_f)) \<and>
      finiteNonNegative (CurrentPrice_f techStock_f) \<and>
      finiteNonNegative (CurrentPrice_f healthStock_f) \<and>
      SharesOwned_f ignoredStock_f \<le> 0"
    by (simp add: testRates_f_values test_portfolio_f_fields)
  show ?thesis
    using inputs test_portfolio_f_total sum zero by blast
qed

text \<open>
  Claim C7 as written fails. A position with a negative price lowers the total of the first
  pass and is left out of the second (its value is not positive): ten shares at 100 and one
  share at \<open>-50\<close> give a total value of 950 and a single sector weight of 2000/19, about
  105.26.
\<close>

theorem negative_price_counterexample:
  "finitePositive (rateOf_f testRates_f (Currency_f techStock_f)) \<and>
   finitePositive (rateOf_f testRates_f (Currency_f negativePriceStock_f)) \<and>
   TotalValue_f (CalculatePortfolioMetrics_f [techStock_f, negativePriceStock_f] testRates_f)
     = Fin 950 \<and>
   SectorWeights_f (CalculatePortfolioMetrics_f [techStock_f, negativePriceStock_f] testRates_f)
     = [(''Tech'', Fin (2000 / 19))] \<and>
   KellyUtilization_f (CalculatePortfolioMetrics_f [techStock_f, negativePriceStock_f] testRates_f)
     = Fin (2000 / 19) \<and>
   \<not> withinTenthOf 100 (sumWeights (SectorWeights_f
       (CalculatePortfolioMetrics_f [techStock_f, negativePriceStock_f] testRates_f)))"
  by (simp add: CalculatePortfolioMetrics_f_def techStock_f_def negativePriceStock_f_def
      zeroStock_f_def testRates_f_values summarise_f_def noAggregates_f_def sumWeights_def
      clip_small Let_def)

text \<open>
  The total has to be finite as well: two positions of one share at \<open>2^1023\<close> make the total
  value \<open>+Inf\<close>, which passes the guard \<^verbatim>\<open>totalValue > 0\<close> and makes every weight 0.
\<close>

lemma overflowing_total:
  "finitePositive (rateOf_f testRates_f (Currency_f hugePriceStock)) \<and>
   finiteNonNegative (CurrentPrice_f hugePriceStock) \<and>
   TotalValue_f (CalculatePortfolioMetrics_f [hugePriceStock, hugePriceStock] testRates_f) = PInf \<and>
   KellyUtilization_f (CalculatePortfolioMetrics_f [hugePriceStock, hugePriceStock] testRates_f)
     = Fin 0 \<and>
   SectorWeights_f (CalculatePortfolioMetrics_f [hugePriceStock, hugePriceStock] testRates_f)
     = [(''Tech'', Fin 0)]"
  using hugePrice_facts(1)
  by (simp add: CalculatePortfolioMetrics_f_def hugePriceStock_def zeroStock_f_def
      testRates_f_values hugePrice_facts(2,3) summarise_f_def noAggregates_f_def clip_small
      Let_def)

end
